theory Spec2Isabelle
  imports Main "HOL-Library.AList"
begin

section \<open>Python values and the operations the autograder applies to them\<close>

text \<open>
  The submission metadata is what \<^verbatim>\<open>json.load\<close> returns: \<^verbatim>\<open>None\<close>, booleans, integers,
  strings, lists and dictionaries. A dictionary is an association list with the keys
  in insertion order; a lookup takes the first binding of a key. Numbers that are
  not integers are outside the model.
\<close>

datatype py_error = KeyError | TypeError | ValueError | IndexError | AttributeError | OverflowError

datatype json = JNull | JBool bool | JInt int | JStr string
  | JArr "json list" | JObj "(string \<times> json) list"

text \<open>\<^verbatim>\<open>d[k]\<close> for a string key: only a dictionary has string keys.\<close>

fun py_getitem :: "json \<Rightarrow> string \<Rightarrow> py_error + json" where
  "py_getitem (JObj kvs) k = (case map_of kvs k of None \<Rightarrow> Inl KeyError | Some v \<Rightarrow> Inr v)"
| "py_getitem _ k = Inl TypeError"

text \<open>\<^verbatim>\<open>d.get(k)\<close>: a method of dictionaries only; a missing key gives \<^verbatim>\<open>None\<close>.\<close>

fun py_get :: "json \<Rightarrow> string \<Rightarrow> py_error + json" where
  "py_get (JObj kvs) k = (case map_of kvs k of None \<Rightarrow> Inr JNull | Some v \<Rightarrow> Inr v)"
| "py_get _ k = Inl AttributeError"

text \<open>Truth value of a Python object in a condition.\<close>

fun py_truthy :: "json \<Rightarrow> bool" where
  "py_truthy JNull = False"
| "py_truthy (JBool b) = b"
| "py_truthy (JInt n) = (n \<noteq> 0)"
| "py_truthy (JStr s) = (s \<noteq> [])"
| "py_truthy (JArr xs) = (xs \<noteq> [])"
| "py_truthy (JObj kvs) = (kvs \<noteq> [])"

text \<open>
  \<^verbatim>\<open>==\<close>: booleans compare as the integers 0 and 1, lists elementwise, dictionaries
  as maps, values of different kinds are unequal.
\<close>

function (sequential) py_eq :: "json \<Rightarrow> json \<Rightarrow> bool" where
  "py_eq JNull JNull = True"
| "py_eq (JBool a) (JBool b) = (a = b)"
| "py_eq (JBool a) (JInt n) = (n = (if a then 1 else 0))"
| "py_eq (JInt n) (JBool a) = (n = (if a then 1 else 0))"
| "py_eq (JInt m) (JInt n) = (m = n)"
| "py_eq (JStr s) (JStr t) = (s = t)"
| "py_eq (JArr xs) (JArr ys) =
     (length xs = length ys \<and> (\<forall>(x, y) \<in> set (zip xs ys). py_eq x y))"
| "py_eq (JObj a) (JObj b) =
     (set (map fst a) = set (map fst b) \<and>
      (\<forall>(k, v) \<in> set a. \<forall>(k', w) \<in> set b.
         k = k' \<longrightarrow> map_of a k = Some v \<longrightarrow> map_of b k' = Some w \<longrightarrow> py_eq v w))"
| "py_eq _ _ = False"
  by pat_completeness auto
termination
proof (relation "measure (\<lambda>(x, y). size x)")
  fix xs ys :: "json list" and z :: "json \<times> json" and x y :: json
  assume "z \<in> set (zip xs ys)" "(x, y) = z"
  then have "x \<in> set xs" by (auto dest: set_zip_leftD)
  then have "size x \<le> size_list size xs" by (simp add: size_list_estimation')
  then show "((x, y), JArr xs, JArr ys) \<in> measure (\<lambda>(x, y). size x)" by simp
next
  fix a b :: "(string \<times> json) list" and z z' :: "string \<times> json"
    and k k' :: string and v w :: json
  assume "z \<in> set a" "(k, v) = z"
  then have "(k, v) \<in> set a" by simp
  then have "size_prod (\<lambda>_. 0) size (k, v) \<le> size_list (size_prod (\<lambda>_. 0) size) a"
    by (rule size_list_estimation') simp
  then show "((v, w), JObj a, JObj b) \<in> measure (\<lambda>(x, y). size x)" by simp
qed simp

text \<open>\<^verbatim>\<open>x in xs\<close> for a list \<^verbatim>\<open>xs\<close>: some element is equal to \<^verbatim>\<open>x\<close>.\<close>

definition py_in_list :: "json \<Rightarrow> json list \<Rightarrow> bool" where
  "py_in_list x xs = list_ex (\<lambda>y. py_eq y x) xs"

definition is_substring :: "string \<Rightarrow> string \<Rightarrow> bool" where
  "is_substring k s = list_ex (\<lambda>i. take (length k) (drop i s) = k) [0..<Suc (length s)]"

text \<open>
  \<^verbatim>\<open>k in c\<close> for a string \<^verbatim>\<open>k\<close>: a key of a dictionary, a substring of a string,
  an element of a list; anything else is not a container.
\<close>

fun py_contains :: "string \<Rightarrow> json \<Rightarrow> py_error + bool" where
  "py_contains k (JObj kvs) = Inr (k \<in> set (map fst kvs))"
| "py_contains k (JStr s) = Inr (is_substring k s)"
| "py_contains k (JArr xs) = Inr (py_in_list (JStr k) xs)"
| "py_contains k _ = Inl TypeError"

text \<open>What a \<^verbatim>\<open>for\<close> loop iterates over: the keys of a dictionary, the characters of a string.\<close>

fun py_iter :: "json \<Rightarrow> py_error + json list" where
  "py_iter (JArr xs) = Inr xs"
| "py_iter (JObj kvs) = Inr (map (\<lambda>kv. JStr (fst kv)) kvs)"
| "py_iter (JStr s) = Inr (map (\<lambda>c. JStr [c]) s)"
| "py_iter _ = Inl TypeError"

text \<open>\<^verbatim>\<open>xs[len(xs) - 1]\<close>: on an empty sequence the index is \<^verbatim>\<open>-1\<close>, which is out of range.\<close>

fun py_last_item :: "json \<Rightarrow> py_error + json" where
  "py_last_item (JArr xs) = (if xs = [] then Inl IndexError else Inr (last xs))"
| "py_last_item (JStr s) = (if s = [] then Inl IndexError else Inr (JStr [last s]))"
| "py_last_item (JObj kvs) = Inl KeyError"
| "py_last_item _ = Inl TypeError"

text \<open>\<^verbatim>\<open>str(n)\<close> for an integer.\<close>

fun str_nat :: "nat \<Rightarrow> string" where
  "str_nat n = (if n < 10 then [''0123456789'' ! n]
     else str_nat (n div 10) @ [''0123456789'' ! (n mod 10)])"

declare str_nat.simps [simp del]

definition str_int :: "int \<Rightarrow> string" where
  "str_int n = (if n < 0 then ''-'' @ str_nat (nat (- n)) else str_nat (nat n))"

text \<open>The number that a text of decimal digits writes, to state what \<open>str_nat\<close> returns.\<close>

definition digits_value :: "string \<Rightarrow> nat" where
  "digits_value s = foldl (\<lambda>a c. 10 * a + (of_char c - 48)) 0 s"

text \<open>
  \<^verbatim>\<open>template.format(a)\<close> with one positional argument, for templates made of text,
  doubled braces and the empty field \<^verbatim>\<open>{}\<close>; the flag records that the argument is used
  up. Named and numbered fields are outside the model.
\<close>

fun str_format :: "string \<Rightarrow> string \<Rightarrow> bool \<Rightarrow> py_error + string" where
  "str_format [] a used = Inr []"
| "str_format (c # cs) a used =
     (if c = CHR ''{'' then
        (case cs of
           [] \<Rightarrow> Inl ValueError
         | c' # cs' \<Rightarrow>
             if c' = CHR ''{'' then map_sum id (\<lambda>r. CHR ''{'' # r) (str_format cs' a used)
             else if c' = CHR ''}'' then
               (if used then Inl IndexError else map_sum id (\<lambda>r. a @ r) (str_format cs' a True))
             else Inl ValueError)
      else if c = CHR ''}'' then
        (case cs of
           [] \<Rightarrow> Inl ValueError
         | c' # cs' \<Rightarrow>
             if c' = CHR ''}'' then map_sum id (\<lambda>r. CHR ''}'' # r) (str_format cs' a used)
             else Inl ValueError)
      else map_sum id (\<lambda>r. c # r) (str_format cs a used))"

text \<open>A text without braces is a template without fields.\<close>

definition no_braces :: "string \<Rightarrow> bool" where
  "no_braces s = (CHR ''{'' \<notin> set s \<and> CHR ''}'' \<notin> set s)"

section \<open>The environment, \<^verbatim>\<open>RateLimit\<close> and \<^verbatim>\<open>Autograder\<close>\<close>

text \<open>
  The library and platform functions the code calls are parameters of the model.
  \<^item> \<open>is_local\<close>: the result of \<^verbatim>\<open>Utils.is_local()\<close>.
  \<^item> \<open>mktime_strptime s\<close>: \<^verbatim>\<open>time.mktime(time.strptime(s, "%Y-%m-%dT%H:%M:%S"))\<close>, the
    seconds since the epoch as an integer, \<open>None\<close> when \<^verbatim>\<open>strptime\<close> raises ValueError.
    The code keeps the parsed \<^verbatim>\<open>struct_time\<close> and converts it at each use; \<^verbatim>\<open>mktime\<close> is
    taken to be total, so the conversion is done once.
  \<^item> \<open>fromtimestamp t\<close>: \<^verbatim>\<open>datetime.datetime.fromtimestamp(t)\<close>, a naive local date,
    counted in whole seconds from the naive date 1970-01-01 00:00:00. The conversion
    is taken to be total on the times that \<^verbatim>\<open>mktime\<close> returns.
  \<^item> \<open>ctime d\<close>: \<^verbatim>\<open>d.ctime()\<close>.
\<close>

record env =
  is_local :: bool
  mktime_strptime :: "string \<Rightarrow> int option"
  fromtimestamp :: "int \<Rightarrow> int"
  ctime :: "int \<Rightarrow> string"

text \<open>
  \<^verbatim>\<open>class RateLimit\<close>. \<open>tokens_used\<close> starts as the empty string and holds an integer
  once \<^verbatim>\<open>rate_limit_set_main_string\<close> has run: \<open>None\<close> stands for the empty string.
\<close>

record RateLimit =
  tokens :: "int option"
  seconds :: int
  minutes :: int
  hours :: int
  days :: int
  reset_time :: "string option"
  rl_output :: string
  pull_prev_run :: bool
  submission_id_exclude :: "json list"
  oldest_token_time :: "int option"
  current_submission_time :: "int option"
  main_string :: string
  tokens_used :: "int option"

text \<open>\<^verbatim>\<open>RateLimit.__init__\<close>: every argument is stored as given; nothing is checked.\<close>

definition RateLimit_init ::
  "int option \<Rightarrow> int \<Rightarrow> int \<Rightarrow> int \<Rightarrow> int \<Rightarrow> string option \<Rightarrow> bool \<Rightarrow> json list
     \<Rightarrow> py_error + RateLimit" where
  "RateLimit_init tk s m h d rt ppr excl =
     Inr \<lparr> tokens = tk, seconds = s, minutes = m, hours = h, days = d, reset_time = rt,
           rl_output = [], pull_prev_run = ppr, submission_id_exclude = excl,
           oldest_token_time = None, current_submission_time = None,
           main_string = [], tokens_used = None \<rparr>"

definition total_seconds :: "RateLimit \<Rightarrow> int" where
  "total_seconds rl = seconds rl + 60 * (minutes rl + 60 * (hours rl + (24 * days rl)))"

definition set_next_token_regen :: "int option \<Rightarrow> int option \<Rightarrow> RateLimit \<Rightarrow> RateLimit" where
  "set_next_token_regen oldest cur rl =
     rl\<lparr> oldest_token_time := oldest, current_submission_time := cur \<rparr>"

definition rate_limit_set_main_string :: "string \<Rightarrow> int \<Rightarrow> RateLimit \<Rightarrow> RateLimit" where
  "rate_limit_set_main_string str tu rl = rl\<lparr> main_string := str, tokens_used := Some tu \<rparr>"

text \<open>
  \<^verbatim>\<open>datetime.timedelta(seconds=n)\<close>: the number of whole days must have a magnitude of
  at most 999999999.
\<close>

definition timedelta :: "int \<Rightarrow> py_error + int" where
  "timedelta n =
     (if - 999999999 \<le> n div 86400 \<and> n div 86400 \<le> 999999999 then Inr n else Inl OverflowError)"

text \<open>
  \<^verbatim>\<open>date + delta\<close> for a \<^verbatim>\<open>datetime\<close> and a \<^verbatim>\<open>timedelta\<close> of whole seconds: the result
  must lie between \<^verbatim>\<open>datetime.min\<close>, 0001-01-01 00:00:00, and the last second of
  \<^verbatim>\<open>datetime.max\<close>, 9999-12-31 23:59:59, which are 719162 days before and 2932896 days
  and 86399 seconds after 1970-01-01 00:00:00.
\<close>

definition datetime_add :: "int \<Rightarrow> int \<Rightarrow> py_error + int" where
  "datetime_add d n =
     (if - 62135596800 \<le> d + n \<and> d + n \<le> 253402300799 then Inr (d + n)
      else Inl OverflowError)"

text \<open>
  \<^verbatim>\<open>if date: next_token_regen = date + datetime_regen_rate\<close>, for a date or \<^verbatim>\<open>None\<close>: the
  date of the next regeneration, when there is a date to count from.
\<close>

definition next_regen :: "int option \<Rightarrow> int \<Rightarrow> py_error + int option" where
  "next_regen date rate =
     (case date of
        Some d \<Rightarrow> (case datetime_add d rate of Inl e \<Rightarrow> Inl e | Inr nt \<Rightarrow> Inr (Some nt))
      | None \<Rightarrow> Inr None)"

text \<open>
  \<^verbatim>\<open>class Autograder\<close>, the fields that the rate limiter and \<^verbatim>\<open>generate_results\<close> use.
  \<open>tests\<close> holds what \<^verbatim>\<open>get_results()\<close> of each registered test returns, in
  registration order; \<open>ag_output\<close> is the field \<^verbatim>\<open>output\<close>; \<open>score\<close>, \<open>leaderboard\<close> and the visibilities are \<open>JNull\<close> for
  \<^verbatim>\<open>None\<close>; \<open>metadata\<close> is \<open>JNull\<close> when no metadata file was read.
\<close>

record Autograder =
  use_ratelimit_when_local :: bool
  tests :: "json list"
  score :: json
  ag_output :: "string option"
  visibility :: json
  stdout_visibility :: json
  extra_data :: "(string \<times> json) list"
  leaderboard :: json
  reverse_tests :: bool
  rate_limit :: "RateLimit option"
  modify_results :: "(string \<times> json) list \<Rightarrow> (string \<times> json) list"
  metadata :: json

text \<open>\<^verbatim>\<open>Autograder.print\<close> with one argument: the text and a newline are appended.\<close>

definition ag_print :: "string \<Rightarrow> Autograder \<Rightarrow> Autograder" where
  "ag_print msg ag =
     ag\<lparr> ag_output := Some ((case ag_output ag of None \<Rightarrow> [] | Some out \<Rightarrow> out) @ msg @ [CHR 0x0A]) \<rparr>"

text \<open>The text printed so far: \<^verbatim>\<open>output\<close>, or nothing when it is still \<^verbatim>\<open>None\<close>.\<close>

definition output_text :: "Autograder \<Rightarrow> string" where
  "output_text ag = (case ag_output ag of None \<Rightarrow> [] | Some out \<Rightarrow> out)"

definition set_score :: "json \<Rightarrow> Autograder \<Rightarrow> Autograder" where
  "set_score sc ag = ag\<lparr> score := sc \<rparr>"


definition rate_limit_does_submission_count :: "Autograder \<Rightarrow> py_error + json" where
  "rate_limit_does_submission_count ag =
     (case map_of (extra_data ag) ''sub_counts'' of None \<Rightarrow> Inl KeyError | Some v \<Rightarrow> Inr v)"

section \<open>\<^verbatim>\<open>Autograder.generate_results\<close>\<close>

text \<open>\<^verbatim>\<open>["score" in t for t in ts]\<close>: every element is tested, and one that is no container raises.\<close>

fun score_in_each :: "json list \<Rightarrow> py_error + bool list" where
  "score_in_each [] = Inr []"
| "score_in_each (t # ts) =
     (case py_contains ''score'' t of
        Inl e \<Rightarrow> Inl e
      | Inr b \<Rightarrow> (case score_in_each ts of Inl e \<Rightarrow> Inl e | Inr bs \<Rightarrow> Inr (b # bs)))"

text \<open>
  \<^verbatim>\<open>"tests" not in results or len(results["tests"]) == 0 or
  not any(["score" in t for t in results["tests"]])\<close>, where \<^verbatim>\<open>results["tests"]\<close> is a list
  whenever it is present.
\<close>

definition no_test_gives_points :: "(string \<times> json) list \<Rightarrow> py_error + bool" where
  "no_test_gives_points results =
     (case map_of results ''tests'' of
        None \<Rightarrow> Inr True
      | Some (JArr ts) \<Rightarrow>
          (if ts = [] then Inr True
           else (case score_in_each ts of Inl e \<Rightarrow> Inl e | Inr bs \<Rightarrow> Inr (\<not> list_ex id bs)))
      | Some _ \<Rightarrow> Inl TypeError)"

text \<open>
  \<^verbatim>\<open>generate_results(test_results, leaderboard)\<close> with \<^verbatim>\<open>dump=True\<close> and
  \<^verbatim>\<open>print_main_score_warning_error=True\<close>, the arguments \<open>JNull\<close> for \<^verbatim>\<open>None\<close>. It returns
  the autograder and the dictionary it dumps. The key \<^verbatim>\<open>execution_time\<close>, a reading of
  the clock, is left out of the dictionary.
\<close>

definition generate_results ::
  "json \<Rightarrow> json \<Rightarrow> Autograder \<Rightarrow> py_error + (Autograder \<times> (string \<times> json) list)" where
  "generate_results test_results lb ag =
     (let results = [];
          results =
            (if test_results = JNull then
               (let tsts = (if reverse_tests ag then rev (tests ag) else tests ag);
                    ts = filter py_truthy tsts
                in if ts \<noteq> [] then AList.update ''tests'' (JArr ts) results else results)
             else (case test_results of
                     JArr xs \<Rightarrow> AList.update ''tests'' test_results results
                   | _ \<Rightarrow> results))
      in case (if score ag \<noteq> JNull then Inr (AList.update ''score'' (score ag) results, ag)
               else (case no_test_gives_points results of
                       Inl e \<Rightarrow> Inl e
                     | Inr True \<Rightarrow>
                         Inr (AList.update ''score'' (JInt 0) results,
                              ag_print ''This autograder does not set the main score or have any tests which give points!'' ag)
                     | Inr False \<Rightarrow> Inr (results, ag))) of
           Inl e \<Rightarrow> Inl e
         | Inr (results, ag) \<Rightarrow>
             (let results = (case ag_output ag of
                               None \<Rightarrow> results
                             | Some out \<Rightarrow> AList.update ''output'' (JStr out) results);
                  results = (if visibility ag \<noteq> JNull
                             then AList.update ''visibility'' (visibility ag) results else results);
                  results = (if stdout_visibility ag \<noteq> JNull
                             then AList.update ''stdout_visibility'' (stdout_visibility ag) results
                             else results);
                  results = (if extra_data ag \<noteq> []
                             then AList.update ''extra_data'' (JObj (extra_data ag)) results
                             else results);
                  results = (if py_truthy lb then AList.update ''leaderboard'' lb results
                             else if leaderboard ag \<noteq> JNull
                             then AList.update ''leaderboard'' (leaderboard ag) results
                             else results);
                  results = modify_results ag results
              in Inr (ag, results)))"

section \<open>\<^verbatim>\<open>Autograder.rate_limit_main\<close>\<close>

definition get_submission_time :: "string \<Rightarrow> string" where
  "get_submission_time s = take (length s - 13) s"

text \<open>
  \<^verbatim>\<open>time.strptime(get_submission_time(x), "%Y-%m-%dT%H:%M:%S")\<close> for a value of the
  metadata: only a string can be both sliced and parsed.
\<close>

definition parse_submission_time :: "env \<Rightarrow> json \<Rightarrow> py_error + int" where
  "parse_submission_time E x =
     (case x of
        JStr s \<Rightarrow> (case mktime_strptime E (get_submission_time s) of
                     None \<Rightarrow> Inl ValueError
                   | Some t \<Rightarrow> Inr t)
      | _ \<Rightarrow> Inl TypeError)"

text \<open>\<^verbatim>\<open>restart_time\<close>: the reset time is parsed as it is, when there is one.\<close>

definition parse_restart_time :: "env \<Rightarrow> string option \<Rightarrow> py_error + int option" where
  "parse_restart_time E rs =
     (case rs of
        None \<Rightarrow> Inr None
      | Some s \<Rightarrow> (case mktime_strptime E s of None \<Rightarrow> Inl ValueError | Some t \<Rightarrow> Inr (Some t)))"

definition pretty_time_str :: "int \<Rightarrow> int \<Rightarrow> int \<Rightarrow> int \<Rightarrow> string" where
  "pretty_time_str s m h d =
     (let sstr = (if s = 0 then [] else str_int s @ '' second'');
          sstr = sstr @ (if sstr = [] \<or> s = 1 then [] else ''s'');
          mstr = (if m = 0 then [] else str_int m @ '' minute'');
          mstr = mstr @ (if mstr = [] \<or> m = 1 then [] else ''s'');
          hstr = (if h = 0 then [] else str_int h @ '' hour'');
          hstr = hstr @ (if hstr = [] \<or> h = 1 then [] else ''s'');
          dstr = (if d = 0 then [] else str_int d @ '' day'');
          dstr = dstr @ (if dstr = [] \<or> d = 1 then [] else ''s'');
          st = foldl (\<lambda>st tmpstr. (if st \<noteq> [] \<and> tmpstr \<noteq> [] then st @ '' '' else st) @ tmpstr)
                 dstr [hstr, mstr, sstr]
      in if st = [] then ''none'' else st)"

text \<open>
  The body of the \<^verbatim>\<open>try\<close> block for one previous submission \<open>v\<close> submitted at \<open>subm_time\<close>.
  The loop state is the pair of \<^verbatim>\<open>tokens_used\<close> and \<^verbatim>\<open>oldest_counted_submission\<close>.
  (The \<^verbatim>\<open>verbose\<close> printing reads the same keys and writes to standard output only.)
\<close>

definition count_submission ::
  "json list \<Rightarrow> json \<Rightarrow> int \<Rightarrow> int \<times> int option \<Rightarrow> py_error + (int \<times> int option)" where
  "count_submission exclude v subm_time st =
     (case py_getitem v ''results'' of
        Inl e \<Rightarrow> Inl e
      | Inr res \<Rightarrow>
     (case py_getitem res ''extra_data'' of
        Inl e \<Rightarrow> Inl e
      | Inr ed \<Rightarrow>
          if ed \<noteq> JNull then
            (case py_get ed ''id'' of
               Inl e \<Rightarrow> Inl e
             | Inr subID \<Rightarrow>
            (case py_getitem ed ''sub_counts'' of
               Inl e \<Rightarrow> Inl e
             | Inr sc \<Rightarrow>
                 if py_eq sc (JInt 1) \<and> (py_truthy subID \<and> \<not> py_in_list subID exclude)
                 then Inr (fst st + 1, (case snd st of None \<Rightarrow> Some subm_time | Some t \<Rightarrow> Some t))
                 else Inr st))
          else Inr st))"

text \<open>
  \<^verbatim>\<open>subm_time\<close>, \<^verbatim>\<open>current_time\<close> and the list the loop runs over, as the code reads
  them from a previous submission and from the metadata.
\<close>

definition subm_time_of :: "env \<Rightarrow> json \<Rightarrow> py_error + int" where
  "subm_time_of E v =
     (case py_getitem v ''submission_time'' of
        Inl e \<Rightarrow> Inl e
      | Inr ts \<Rightarrow> parse_submission_time E ts)"

definition current_time_of :: "env \<Rightarrow> json \<Rightarrow> py_error + int" where
  "current_time_of E md =
     (case py_getitem md ''created_at'' of
        Inl e \<Rightarrow> Inl e
      | Inr created \<Rightarrow> parse_submission_time E created)"

definition history_of :: "json \<Rightarrow> py_error + json list" where
  "history_of md =
     (case py_getitem md ''previous_submissions'' of
        Inl e \<Rightarrow> Inl e
      | Inr prev_subs \<Rightarrow> py_iter prev_subs)"

text \<open>
  One iteration of the loop over \<^verbatim>\<open>previous_submissions\<close>. An exception inside the
  \<^verbatim>\<open>try\<close> block uses a token; one raised by reading or parsing the submission time
  leaves the function.
\<close>

definition loop_body ::
  "env \<Rightarrow> json list \<Rightarrow> int \<Rightarrow> int option \<Rightarrow> int \<Rightarrow> json \<Rightarrow> int \<times> int option
     \<Rightarrow> py_error + (int \<times> int option)" where
  "loop_body E exclude current_time restart_time regen_time_seconds v st =
     (case subm_time_of E v of
        Inl e \<Rightarrow> Inl e
      | Inr subm_time \<Rightarrow>
          if restart_time \<noteq> None \<and> subm_time - the restart_time < 0 then Inr st
          else if current_time - subm_time < regen_time_seconds then
            (case count_submission exclude v subm_time st of
               Inl e \<Rightarrow> Inr (fst st + 1, snd st)
             | Inr st' \<Rightarrow> Inr st')
          else Inr st)"

fun for_each :: "('a \<Rightarrow> 's \<Rightarrow> py_error + 's) \<Rightarrow> 'a list \<Rightarrow> 's \<Rightarrow> py_error + 's" where
  "for_each body [] st = Inr st"
| "for_each body (v # vs) st =
     (case body v st of Inl e \<Rightarrow> Inl e | Inr st' \<Rightarrow> for_each body vs st')"

text \<open>
  The counting part of \<^verbatim>\<open>rate_limit_main\<close>, from reading \<^verbatim>\<open>created_at\<close> to the end of
  the loop: it returns \<^verbatim>\<open>tokens_used\<close>, \<^verbatim>\<open>oldest_counted_submission\<close> and the current time.
\<close>

definition count_tokens :: "env \<Rightarrow> RateLimit \<Rightarrow> json \<Rightarrow> py_error + ((int \<times> int option) \<times> int)" where
  "count_tokens E rl md =
     (case current_time_of E md of
        Inl e \<Rightarrow> Inl e
      | Inr current_time \<Rightarrow>
     (case parse_restart_time E (reset_time rl) of
        Inl e \<Rightarrow> Inl e
      | Inr restart_time \<Rightarrow>
     (case history_of md of
        Inl e \<Rightarrow> Inl e
      | Inr vs \<Rightarrow>
     (case for_each (loop_body E (submission_id_exclude rl) current_time restart_time
                       (total_seconds rl)) vs (0, None) of
        Inl e \<Rightarrow> Inl e
      | Inr st \<Rightarrow> Inr (st, current_time)))))"

text \<open>
  The f-string passed to \<^verbatim>\<open>rate_limit_set_main_string\<close>, with the text at the place of
  its \<^verbatim>\<open>{{}}\<close> as a parameter: the f-string itself has \<^verbatim>\<open>{}\<close> there.
\<close>

definition main_string_with :: "int \<Rightarrow> string \<Rightarrow> RateLimit \<Rightarrow> string" where
  "main_string_with tk cnt rl =
     (''[Rate Limit]: Students can get up to '' @ str_int tk
      @ '' graded submissions within any given period of ''
      @ pretty_time_str (seconds rl) (minutes rl) (hours rl) (days rl)
      @ ''. In the last period, you have had '')
     @ cnt @ ('' graded submissions.'' @ [CHR 0x0A])"

definition main_string_of :: "int \<Rightarrow> RateLimit \<Rightarrow> string" where
  "main_string_of tk rl = main_string_with tk ''{}'' rl"

definition denied_string_of :: "int \<Rightarrow> int \<Rightarrow> RateLimit \<Rightarrow> string" where
  "denied_string_of tk tu rl =
     ''[Rate Limit]: Students can get up to '' @ str_int tk
     @ '' graded submissions within any given period of ''
     @ pretty_time_str (seconds rl) (minutes rl) (hours rl) (days rl)
     @ ''. You have already had '' @ str_int tu @ '' graded submissions within the last ''
     @ pretty_time_str (seconds rl) (minutes rl) (hours rl) (days rl)
     @ (if pull_prev_run rl
        then '', so the results of your last graded submission are being displayed.''
        else ''.'')
     @ '' Because you do not have any more tokens, this submission will not count as a graded submission.''"

text \<open>
  The second text that a denial prints, from the date \<^verbatim>\<open>next_token_regen\<close>, or \<^verbatim>\<open>None\<close>
  when there is no oldest counted submission.
\<close>

definition denied_regen_string :: "env \<Rightarrow> int option \<Rightarrow> string" where
  "denied_regen_string E next_token_regen =
     (case next_token_regen of
        Some nt \<Rightarrow> ''[Rate Limit]: As of this submission time, your next token will regenerate at ''
                   @ ctime E nt @ '' (PT).'' @ [CHR 0x0A]
      | None \<Rightarrow> ''[Rate Limit]: As of this submisison, you have not used any tokens.'' @ [CHR 0x0A])"

text \<open>
  \<^verbatim>\<open>prev_sub and "results" not in prev_sub or
  prev_sub["results"] and "tests" not in prev_sub["results"]\<close>, as a truth value.
\<close>

definition prev_run_unusable :: "json \<Rightarrow> py_error + bool" where
  "prev_run_unusable prev_sub =
     (case (if py_truthy prev_sub
            then map_sum id Not (py_contains ''results'' prev_sub) else Inr False) of
        Inl e \<Rightarrow> Inl e
      | Inr True \<Rightarrow> Inr True
      | Inr False \<Rightarrow>
          (case py_getitem prev_sub ''results'' of
             Inl e \<Rightarrow> Inl e
           | Inr res \<Rightarrow>
               if py_truthy res then map_sum id Not (py_contains ''tests'' res) else Inr False))"

text \<open>
  The \<^verbatim>\<open>pull_prev_run\<close> branch: the test list, the leaderboard and the autograder with
  its score set, taken from the last previous submission.
\<close>

definition pull_prev :: "Autograder \<Rightarrow> py_error + (json \<times> json \<times> Autograder)" where
  "pull_prev ag =
     (case py_getitem (metadata ag) ''previous_submissions'' of
        Inl e \<Rightarrow> Inl e
      | Inr prev_subs \<Rightarrow>
     (case py_last_item prev_subs of
        Inl e \<Rightarrow> Inl e
      | Inr prev_sub \<Rightarrow>
     (case prev_run_unusable prev_sub of
        Inl e \<Rightarrow> Inl e
      | Inr True \<Rightarrow>
          Inr (JArr [], JNull,
               set_score (JInt 0)
                 (ag_print ''[ERROR]: Could not pull the data from your previous submission! This is probably due to it not have finished running!'' ag))
      | Inr False \<Rightarrow>
          (case py_getitem prev_sub ''results'' of
             Inl e \<Rightarrow> Inl e
           | Inr res \<Rightarrow>
          (case py_getitem res ''tests'' of
             Inl e \<Rightarrow> Inl e
           | Inr tsts \<Rightarrow>
          (case py_getitem res ''leaderboard'' of
             Inl e \<Rightarrow> Inl e
           | Inr lb \<Rightarrow>
          (case py_get prev_sub ''score'' of
             Inl e \<Rightarrow> Inl e
           | Inr sc \<Rightarrow> Inr (tsts, lb, set_score sc ag))))))))"

text \<open>
  How \<^verbatim>\<open>rate_limit_main\<close> ends: it returns and \<^verbatim>\<open>execute\<close> goes on to run the tests, or it
  dumps a result dictionary and leaves the process with \<^verbatim>\<open>sys.exit()\<close>.
\<close>

datatype outcome = Returned Autograder | Exited Autograder "(string \<times> json) list"

text \<open>The branch \<^verbatim>\<open>tokens_used < tokens\<close>.\<close>

definition grant :: "env \<Rightarrow> RateLimit \<Rightarrow> int \<Rightarrow> int \<Rightarrow> int option \<Rightarrow> int \<Rightarrow> Autograder \<Rightarrow> Autograder" where
  "grant E rl tk tu oldest current_time ag =
     ag\<lparr> extra_data := AList.update ''sub_counts'' (JInt 1) (extra_data ag),
         rate_limit := Some (set_next_token_regen (map_option (fromtimestamp E) oldest)
                               (Some (fromtimestamp E current_time))
                               (rate_limit_set_main_string (main_string_of tk rl) (tu + 1) rl)) \<rparr>"

text \<open>The \<^verbatim>\<open>else\<close> branch.\<close>

definition deny ::
  "env \<Rightarrow> RateLimit \<Rightarrow> int \<Rightarrow> int \<Rightarrow> int option \<Rightarrow> int \<Rightarrow> Autograder \<Rightarrow> py_error + outcome" where
  "deny E rl tk tu oldest rate ag =
     (let ag = ag\<lparr> extra_data := AList.update ''sub_counts'' (JInt 0) (extra_data ag) \<rparr>;
          ag = ag_print (denied_string_of tk tu rl) ag
      in case next_regen (map_option (fromtimestamp E) oldest) rate of
           Inl e \<Rightarrow> Inl e
         | Inr next_token_regen \<Rightarrow>
             (let ag = ag_print (denied_regen_string E next_token_regen) ag
              in case (if pull_prev_run rl then pull_prev ag
                       else Inr (JArr [], JNull, set_score (JInt 0) ag)) of
                   Inl e \<Rightarrow> Inl e
                 | Inr (tsts, lb, ag) \<Rightarrow>
                     (case generate_results tsts lb ag of
                        Inl e \<Rightarrow> Inl e
                      | Inr (ag, results) \<Rightarrow> Inr (Exited ag results))))"

definition rate_limit_main :: "env \<Rightarrow> Autograder \<Rightarrow> py_error + outcome" where
  "rate_limit_main E ag =
     (if is_local E \<and> \<not> use_ratelimit_when_local ag then Inr (Returned ag)
      else (case rate_limit ag of
              None \<Rightarrow> Inr (Returned ag)
            | Some rl \<Rightarrow>
          (case tokens rl of
              None \<Rightarrow> Inr (Returned ag)
            | Some tk \<Rightarrow>
          (case count_tokens E rl (metadata ag) of
              Inl e \<Rightarrow> Inl e
            | Inr ((tu, oldest), current_time) \<Rightarrow>
          (case timedelta (total_seconds rl) of
              Inl e \<Rightarrow> Inl e
            | Inr rate \<Rightarrow>
                if tu < tk
                then Inr (Returned (grant E rl tk tu oldest current_time ag))
                else deny E rl tk tu oldest rate ag)))))"

section \<open>\<^verbatim>\<open>RateLimit.get_rate_limit_str\<close>\<close>

text \<open>
  \<^verbatim>\<open>next_token_regen_str\<close>, from the date \<^verbatim>\<open>next_token_regen\<close>, or \<^verbatim>\<open>None\<close> when
  \<^verbatim>\<open>sub_to_count\<close> is \<^verbatim>\<open>None\<close>.
\<close>

definition next_token_regen_str :: "env \<Rightarrow> int option \<Rightarrow> string" where
  "next_token_regen_str E next_token_regen =
     (case next_token_regen of
        Some nt \<Rightarrow> ''[Rate Limit]: As of this submission time, your next token will regenerate at ''
                   @ ctime E nt @ '' (PT).'' @ [CHR 0x0A, CHR 0x0A]
      | None \<Rightarrow> ''[Rate Limit]: As of this submission time, you have not used any tokens!''
                @ [CHR 0x0A, CHR 0x0A])"

definition get_rate_limit_str :: "env \<Rightarrow> RateLimit \<Rightarrow> Autograder \<Rightarrow> py_error + string" where
  "get_rate_limit_str E rl ag =
     (case timedelta (total_seconds rl) of
        Inl e \<Rightarrow> Inl e
      | Inr rate \<Rightarrow>
     (case (case oldest_token_time rl of
              Some t \<Rightarrow> Inr (Some t)
            | None \<Rightarrow> (case rate_limit_does_submission_count ag of
                         Inl e \<Rightarrow> Inl e
                       | Inr c \<Rightarrow> Inr (if py_truthy c then current_submission_time rl else None))) of
        Inl e \<Rightarrow> Inl e
      | Inr sub_to_count \<Rightarrow>
     (case rate_limit_does_submission_count ag of
        Inl e \<Rightarrow> Inl e
      | Inr c \<Rightarrow>
     (case (if \<not> py_truthy c
            then (case tokens_used rl of None \<Rightarrow> Inl TypeError | Some n \<Rightarrow> Inr (str_int (n - 1)))
            else Inr (case tokens_used rl of None \<Rightarrow> [] | Some n \<Rightarrow> str_int n)) of
        Inl e \<Rightarrow> Inl e
      | Inr tu \<Rightarrow>
     (case next_regen sub_to_count rate of
        Inl e \<Rightarrow> Inl e
      | Inr next_token_regen \<Rightarrow>
          map_sum id (\<lambda>r. r @ next_token_regen_str E next_token_regen)
            (str_format (main_string rl) tu False))))))"

section \<open>The earlier revision, \<^verbatim>\<open>src/Autograder.py\<close>\<close>

text \<open>
  The definitions named \<open>legacy_\<close> follow \<^verbatim>\<open>src/Autograder.py\<close>; the ones above follow
  \<^verbatim>\<open>src/GradescopeBase/Autograder.py\<close>. The earlier classes have a subset of the fields,
  so the same records are used; \<open>metadata\<close> is there the content of the metadata file,
  which \<^verbatim>\<open>rate_limit_main\<close> reads itself. There is no test for a local run, no exclusion
  list and no \<^verbatim>\<open>pull_prev_run\<close> option: a denied submission always replays the last one.
\<close>

definition legacy_count_submission :: "json \<Rightarrow> int \<Rightarrow> py_error + int" where
  "legacy_count_submission v n =
     (case py_getitem v ''results'' of
        Inl e \<Rightarrow> Inl e
      | Inr res \<Rightarrow>
     (case py_getitem res ''extra_data'' of
        Inl e \<Rightarrow> Inl e
      | Inr ed \<Rightarrow>
     (case py_getitem ed ''sub_counts'' of
        Inl e \<Rightarrow> Inl e
      | Inr sc \<Rightarrow> if py_eq sc (JInt 1) then Inr (n + 1) else Inr n)))"

definition legacy_loop_body ::
  "env \<Rightarrow> int \<Rightarrow> int option \<Rightarrow> int \<Rightarrow> json \<Rightarrow> int \<Rightarrow> py_error + int" where
  "legacy_loop_body E current_time restart_time regen_time_seconds v n =
     (case subm_time_of E v of
        Inl e \<Rightarrow> Inl e
      | Inr subm_time \<Rightarrow>
          if restart_time \<noteq> None \<and> subm_time - the restart_time < 0 then Inr n
          else if current_time - subm_time < regen_time_seconds then
            (case legacy_count_submission v n of
               Inl e \<Rightarrow> Inr (n + 1)
             | Inr n' \<Rightarrow> Inr n')
          else Inr n)"

definition legacy_count_tokens :: "env \<Rightarrow> RateLimit \<Rightarrow> json \<Rightarrow> py_error + int" where
  "legacy_count_tokens E rl md =
     (case current_time_of E md of
        Inl e \<Rightarrow> Inl e
      | Inr current_time \<Rightarrow>
     (case parse_restart_time E (reset_time rl) of
        Inl e \<Rightarrow> Inl e
      | Inr restart_time \<Rightarrow>
     (case history_of md of
        Inl e \<Rightarrow> Inl e
      | Inr vs \<Rightarrow>
          for_each (legacy_loop_body E current_time restart_time (total_seconds rl)) vs 0)))"

definition legacy_generate_results :: "json \<Rightarrow> Autograder \<Rightarrow> (string \<times> json) list" where
  "legacy_generate_results test_results ag =
     (let results = [];
          results =
            (if test_results = JNull then
               (let ts = filter py_truthy (tests ag)
                in if ts \<noteq> [] then AList.update ''tests'' (JArr ts) results else results)
             else (case test_results of
                     JArr xs \<Rightarrow> AList.update ''tests'' test_results results
                   | _ \<Rightarrow> results));
          results = (if score ag \<noteq> JNull
                     then AList.update ''score'' (score ag) results else results);
          results = (case ag_output ag of
                       None \<Rightarrow> results
                     | Some out \<Rightarrow> AList.update ''output'' (JStr out) results);
          results = (if visibility ag \<noteq> JNull
                     then AList.update ''visibility'' (visibility ag) results else results);
          results = (if stdout_visibility ag \<noteq> JNull
                     then AList.update ''stdout_visibility'' (stdout_visibility ag) results
                     else results);
          results = (if extra_data ag \<noteq> []
                     then AList.update ''extra_data'' (JObj (extra_data ag)) results
                     else results);
          results = (if leaderboard ag \<noteq> JNull
                     then AList.update ''leaderboard'' (leaderboard ag) results else results)
      in results)"

definition legacy_granted_string :: "int \<Rightarrow> int \<Rightarrow> RateLimit \<Rightarrow> string" where
  "legacy_granted_string tk tu rl =
     ''Students can get up to '' @ str_int tk
     @ '' graded submissions within any given period of ''
     @ pretty_time_str (seconds rl) (minutes rl) (hours rl) (days rl)
     @ ''. In the last period, you have had '' @ str_int tu @ '' graded submissions.''"

definition legacy_denied_string :: "int \<Rightarrow> int \<Rightarrow> RateLimit \<Rightarrow> string" where
  "legacy_denied_string tk tu rl =
     ''Students can get up to '' @ str_int tk
     @ '' graded submissions within any given period of ''
     @ pretty_time_str (seconds rl) (minutes rl) (hours rl) (days rl)
     @ ''. You have already had '' @ str_int tu @ '' graded submissions within the last ''
     @ pretty_time_str (seconds rl) (minutes rl) (hours rl) (days rl)
     @ '', so the results of your last graded submission are being displayed. This submission will not count as a graded submission.''"

definition legacy_deny :: "RateLimit \<Rightarrow> int \<Rightarrow> int \<Rightarrow> Autograder \<Rightarrow> py_error + outcome" where
  "legacy_deny rl tk tu ag =
     (let ag = ag\<lparr> extra_data := AList.update ''sub_counts'' (JInt 0) (extra_data ag) \<rparr>;
          ag = ag_print (legacy_denied_string tk tu rl) ag
      in case py_getitem (metadata ag) ''previous_submissions'' of
           Inl e \<Rightarrow> Inl e
         | Inr prev_subs \<Rightarrow>
        (case py_last_item prev_subs of
           Inl e \<Rightarrow> Inl e
         | Inr prev_sub \<Rightarrow>
        (case py_getitem prev_sub ''score'' of
           Inl e \<Rightarrow> Inl e
         | Inr sc \<Rightarrow>
        (case py_getitem prev_sub ''results'' of
           Inl e \<Rightarrow> Inl e
         | Inr res \<Rightarrow>
        (case py_getitem res ''tests'' of
           Inl e \<Rightarrow> Inl e
         | Inr tsts \<Rightarrow>
             (let ag = ag\<lparr> score := sc \<rparr>
              in Inr (Exited ag (legacy_generate_results tsts ag))))))))"

definition legacy_rate_limit_main :: "env \<Rightarrow> Autograder \<Rightarrow> py_error + outcome" where
  "legacy_rate_limit_main E ag =
     (case rate_limit ag of
        None \<Rightarrow> Inr (Returned ag)
      | Some rl \<Rightarrow>
     (case tokens rl of
        None \<Rightarrow> Inr (Returned ag)
      | Some tk \<Rightarrow>
     (case legacy_count_tokens E rl (metadata ag) of
        Inl e \<Rightarrow> Inl e
      | Inr tu \<Rightarrow>
          if tu < tk
          then Inr (Returned
                 (ag_print (legacy_granted_string tk (tu + 1) rl)
                    (ag\<lparr> extra_data := AList.update ''sub_counts'' (JInt 1) (extra_data ag) \<rparr>)))
          else legacy_deny rl tk tu ag)))"

section \<open>Example data\<close>

text \<open>
  An environment for the examples: a run on the grading platform, a clock that knows
  four instants of 1 and 2 January 2020 (as UTC), local time equal to UTC, and dates
  printed as their number of seconds.
\<close>

definition example_clock :: "string \<Rightarrow> int option" where
  "example_clock s =
     (if s = ''2020-01-01T06:00:00'' then Some 1577858400
      else if s = ''2020-01-01T12:00:00'' then Some 1577880000
      else if s = ''2020-01-01T22:00:00'' then Some 1577916000
      else if s = ''2020-01-02T00:00:00'' then Some 1577923200
      else None)"

definition example_env :: env where
  "example_env = \<lparr> is_local = False, mktime_strptime = example_clock,
                   fromtimestamp = (\<lambda>t. t), ctime = str_int \<rparr>"

definition example_rate_limit :: "int \<Rightarrow> RateLimit" where
  "example_rate_limit h =
     \<lparr> tokens = Some 1, seconds = 0, minutes = 0, hours = h, days = 0, reset_time = None,
       rl_output = [], pull_prev_run = True, submission_id_exclude = [],
       oldest_token_time = None, current_submission_time = None,
       main_string = [], tokens_used = None \<rparr>"

definition example_autograder :: "RateLimit \<Rightarrow> json list \<Rightarrow> Autograder" where
  "example_autograder rl prev =
     \<lparr> use_ratelimit_when_local = False, tests = [], score = JNull, ag_output = None,
       visibility = JNull, stdout_visibility = JNull, extra_data = [(''id'', JInt 52)],
       leaderboard = JNull, reverse_tests = False, rate_limit = Some rl,
       modify_results = (\<lambda>results. results),
       metadata = JObj [(''id'', JInt 52),
                        (''created_at'', JStr ''2020-01-02T00:00:00.000000-08:00''),
                        (''previous_submissions'', JArr prev)] \<rparr>"

text \<open>
  \<open>example_rate_limit h\<close> is \<^verbatim>\<open>RateLimit(tokens=1, hours=h, pull_prev_run=True)\<close>, and the
  example autograder runs for a submission created on 2 January 2020 at 00:00:00.
\<close>

text \<open>A previous submission of 1 January 2020 at the given time of day, with its results.\<close>

definition example_submission :: "string \<Rightarrow> json \<Rightarrow> json" where
  "example_submission hms res =
     JObj [(''submission_time'', JStr (''2020-01-01T'' @ hms @ ''.000000-08:00'')),
           (''score'', JInt 7), (''results'', res)]"

definition example_results :: "(string \<times> json) list \<Rightarrow> json" where
  "example_results ed =
     JObj [(''score'', JInt 7), (''tests'', JArr [JObj [(''name'', JStr ''t1''), (''score'', JInt 7)]]),
           (''leaderboard'', JNull), (''extra_data'', JObj ed)]"

text \<open>The results of a previous submission that used a token.\<close>

definition example_counted :: json where
  "example_counted = example_results [(''id'', JInt 51), (''sub_counts'', JInt 1)]"

text \<open>
  What the example autograder is and dumps when its submission is denied after one
  counted submission of 22:00:00, in the current and in the earlier revision.
\<close>

definition example_denied_text :: string where
  "example_denied_text =
     ''[Rate Limit]: Students can get up to 1 graded submissions within any given period of 24 hours. You have already had 1 graded submissions within the last 24 hours, so the results of your last graded submission are being displayed. Because you do not have any more tokens, this submission will not count as a graded submission.''
     @ [CHR 0x0A]
     @ ''[Rate Limit]: As of this submission time, your next token will regenerate at 1578002400 (PT).''
     @ [CHR 0x0A, CHR 0x0A]"

definition example_denied :: Autograder where
  "example_denied =
     (example_autograder (example_rate_limit 24)
        [example_submission ''22:00:00'' example_counted])
       \<lparr> extra_data := [(''id'', JInt 52), (''sub_counts'', JInt 0)],
         ag_output := Some example_denied_text,
         score := JInt 7 \<rparr>"

definition example_replay :: "(string \<times> json) list" where
  "example_replay =
     [(''tests'', JArr [JObj [(''name'', JStr ''t1''), (''score'', JInt 7)]]),
      (''score'', JInt 7),
      (''output'', JStr example_denied_text),
      (''extra_data'', JObj [(''id'', JInt 52), (''sub_counts'', JInt 0)])]"

definition legacy_example_denied_text :: string where
  "legacy_example_denied_text =
     ''Students can get up to 1 graded submissions within any given period of 24 hours. You have already had 1 graded submissions within the last 24 hours, so the results of your last graded submission are being displayed. This submission will not count as a graded submission.''
     @ [CHR 0x0A]"

definition legacy_example_denied :: Autograder where
  "legacy_example_denied =
     (example_autograder (example_rate_limit 24)
        [example_submission ''22:00:00'' example_counted])
       \<lparr> extra_data := [(''id'', JInt 52), (''sub_counts'', JInt 0)],
         ag_output := Some legacy_example_denied_text,
         score := JInt 7 \<rparr>"

definition legacy_example_replay :: "(string \<times> json) list" where
  "legacy_example_replay =
     [(''tests'', JArr [JObj [(''name'', JStr ''t1''), (''score'', JInt 7)]]),
      (''score'', JInt 7),
      (''output'', JStr legacy_example_denied_text),
      (''extra_data'', JObj [(''id'', JInt 52), (''sub_counts'', JInt 0)])]"

text \<open>
  What \<^verbatim>\<open>get_rate_limit_str\<close> returns for the example autograder after a first
  submission, with no previous one, has been granted.
\<close>

definition example_granted_text :: string where
  "example_granted_text =
     ''[Rate Limit]: Students can get up to 1 graded submissions within any given period of 24 hours. In the last period, you have had 1 graded submissions.''
     @ [CHR 0x0A]
     @ ''[Rate Limit]: As of this submission time, your next token will regenerate at 1578009600 (PT).''
     @ [CHR 0x0A, CHR 0x0A]"

section \<open>The oldest counted submission, in the words of the specification\<close>




section \<open>Lemmas about the messages\<close>

lemma no_braces_append [simp]: "no_braces (a @ b) = (no_braces a \<and> no_braces b)"
  by (auto simp: no_braces_def)

lemma no_braces_Nil [simp]: "no_braces []"
  by (simp add: no_braces_def)

lemma str_format_plain: "no_braces s \<Longrightarrow> str_format s a used = Inr s"
  by (induction s) (auto simp: no_braces_def)

lemma str_format_field:
  "no_braces p \<Longrightarrow> no_braces q \<Longrightarrow> str_format (p @ ''{}'' @ q) a False = Inr (p @ a @ q)"
  by (induction p) (auto simp: no_braces_def str_format_plain)

lemma no_braces_str_nat: "no_braces (str_nat n)"
proof (induction n rule: str_nat.induct)
  case (1 n)
  have d: "\<And>k::nat. k < 10 \<Longrightarrow> no_braces [''0123456789'' ! k]"
  proof -
    fix k :: nat assume "k < 10"
    then have "k \<in> {0,1,2,3,4,5,6,7,8,9}" by auto
    then show "no_braces [''0123456789'' ! k]" by (auto simp: no_braces_def)
  qed
  show ?case
  proof (cases "n < 10")
    case True
    then show ?thesis by (subst str_nat.simps) (simp add: d)
  next
    case False
    then show ?thesis using 1 by (subst str_nat.simps) (simp add: d)
  qed
qed

lemma str_nat_braces [simp]:
  "CHR ''{'' \<notin> set (str_nat n)" "CHR ''}'' \<notin> set (str_nat n)"
  using no_braces_str_nat [of n] by (simp_all add: no_braces_def)

lemma str_int_braces [simp]:
  "CHR ''{'' \<notin> set (str_int n)" "CHR ''}'' \<notin> set (str_int n)"
  by (simp_all add: str_int_def)

lemma no_braces_str_int: "no_braces (str_int n)"
  by (simp add: no_braces_def)

lemma unit_str_braces:
  "CHR ''{'' \<notin> set u \<Longrightarrow> CHR ''}'' \<notin> set u \<Longrightarrow>
   no_braces ((if x = 0 then [] else str_int x @ u)
              @ (if (if x = 0 then [] else str_int x @ u) = [] \<or> x = 1 then [] else ''s''))"
  by (simp add: no_braces_def)

lemma joined_braces:
  "no_braces a \<Longrightarrow> no_braces b \<Longrightarrow> no_braces c \<Longrightarrow> no_braces d \<Longrightarrow>
   no_braces
     (if foldl (\<lambda>st tmpstr. (if st \<noteq> [] \<and> tmpstr \<noteq> [] then st @ '' '' else st) @ tmpstr)
           d [a, b, c] = [] then ''none''
      else foldl (\<lambda>st tmpstr. (if st \<noteq> [] \<and> tmpstr \<noteq> [] then st @ '' '' else st) @ tmpstr)
             d [a, b, c])"
  by (simp add: no_braces_def)

lemma no_braces_pretty_time_str: "no_braces (pretty_time_str s m h d)"
  unfolding pretty_time_str_def Let_def
  by (intro joined_braces unit_str_braces) simp_all

lemma pretty_time_str_braces [simp]:
  "CHR ''{'' \<notin> set (pretty_time_str s m h d)" "CHR ''}'' \<notin> set (pretty_time_str s m h d)"
  using no_braces_pretty_time_str [of s m h d] by (simp_all add: no_braces_def)

lemma format_main_string_of:
  "str_format (main_string_of tk rl) a False = Inr (main_string_with tk a rl)"
  unfolding main_string_of_def main_string_with_def
  by (rule str_format_field) (simp_all add: no_braces_def)

lemma is_substring_middle: "is_substring k (p @ k @ q)"
proof -
  have "length p \<in> set [0..<Suc (length (p @ k @ q))]" by simp
  moreover have "take (length k) (drop (length p) (p @ k @ q)) = k" by simp
  ultimately show ?thesis unfolding is_substring_def list_ex_iff by blast
qed

lemma sub_counts_after_update [simp]:
  "map_of (AList.update k v al) k = Some v"
  by (simp add: update_conv')

lemma update_twice [simp]: "AList.update k v (AList.update k v al) = AList.update k v al"
  by (induction al) auto

lemma grant_fields:
  "extra_data (grant E rl tk n oldest now ag) = AList.update ''sub_counts'' (JInt 1) (extra_data ag)"
  "metadata (grant E rl tk n oldest now ag) = metadata ag"
  "use_ratelimit_when_local (grant E rl tk n oldest now ag) = use_ratelimit_when_local ag"
  "rate_limit (grant E rl tk n oldest now ag)
     = Some (rl\<lparr> oldest_token_time := map_option (fromtimestamp E) oldest,
                  current_submission_time := Some (fromtimestamp E now),
                  main_string := main_string_of tk rl, tokens_used := Some (n + 1) \<rparr>)"
  by (simp_all add: grant_def set_next_token_regen_def rate_limit_set_main_string_def)

lemma get_rate_limit_str_granted:
  assumes "timedelta (total_seconds rl) = Inr rate"
    and "rl' = rl\<lparr> oldest_token_time := map_option (fromtimestamp E) oldest,
                   current_submission_time := Some (fromtimestamp E now),
                   main_string := main_string_of tk rl, tokens_used := Some (n + 1) \<rparr>"
  shows "get_rate_limit_str E rl' (grant E rl tk n oldest now ag)
           = (case datetime_add (case oldest of Some t \<Rightarrow> fromtimestamp E t
                                              | None \<Rightarrow> fromtimestamp E now) rate of
                Inl e \<Rightarrow> Inl e
              | Inr nt \<Rightarrow> Inr (main_string_with tk (str_int (n + 1)) rl
                             @ next_token_regen_str E (Some nt)))"
  using assms
  by (cases oldest)
     (simp_all add: get_rate_limit_str_def total_seconds_def rate_limit_does_submission_count_def
        grant_fields format_main_string_of next_regen_def split: sum.splits)


section \<open>Lemmas about \<^verbatim>\<open>rate_limit_main\<close> and its results\<close>

lemma ag_print_fields [simp]:
  "extra_data (ag_print msg ag) = extra_data ag"
  "output_text (ag_print msg ag) = output_text ag @ msg @ [CHR 0x0A]"
  "modify_results (ag_print msg ag) = modify_results ag"
  "metadata (ag_print msg ag) = metadata ag"
  "score (ag_print msg ag) = score ag"
  by (simp_all add: ag_print_def output_text_def split: option.splits)

lemma set_score_fields [simp]:
  "extra_data (set_score sc ag) = extra_data ag"
  "output_text (set_score sc ag) = output_text ag"
  "modify_results (set_score sc ag) = modify_results ag"
  "metadata (set_score sc ag) = metadata ag"
  by (simp_all add: set_score_def output_text_def)

lemma generate_results_frame:
  assumes "generate_results ts lb ag = Inr (ag', results)"
  shows "extra_data ag' = extra_data ag"
    and "\<exists>post. output_text ag' = output_text ag @ post"
    and "extra_data ag \<noteq> [] \<Longrightarrow> modify_results ag = (\<lambda>r. r) \<Longrightarrow>
           map_of results ''extra_data'' = Some (JObj (extra_data ag))"
proof -
  let ?r1 = "(if ts = JNull then
               (let tsts = (if reverse_tests ag then rev (tests ag) else tests ag);
                    ts' = filter py_truthy tsts
                in if ts' \<noteq> [] then AList.update ''tests'' (JArr ts') [] else [])
             else (case ts of JArr xs \<Rightarrow> AList.update ''tests'' ts [] | _ \<Rightarrow> []))"
  let ?sc = "(if score ag \<noteq> JNull then Inr (AList.update ''score'' (score ag) ?r1, ag)
               else (case no_test_gives_points ?r1 of
                       Inl e \<Rightarrow> Inl e
                     | Inr True \<Rightarrow>
                         Inr (AList.update ''score'' (JInt 0) ?r1,
                              ag_print ''This autograder does not set the main score or have any tests which give points!'' ag)
                     | Inr False \<Rightarrow> Inr (?r1, ag)))"
  from assms obtain r2 ag2 where sc: "?sc = Inr (r2, ag2)"
    by (cases ?sc) (auto simp: generate_results_def Let_def)
  then have ag2: "extra_data ag2 = extra_data ag" "\<exists>post. output_text ag2 = output_text ag @ post"
      "modify_results ag2 = modify_results ag"
    by (auto split: if_splits sum.splits bool.splits)
  from assms sc have a: "ag' = ag2"
    by (simp add: generate_results_def Let_def)
  from assms sc have r: "\<exists>r3. results =
      modify_results ag2
        ((if py_truthy lb then AList.update ''leaderboard'' lb
          else if leaderboard ag2 \<noteq> JNull then AList.update ''leaderboard'' (leaderboard ag2)
          else (\<lambda>r. r))
         ((if extra_data ag2 \<noteq> [] then AList.update ''extra_data'' (JObj (extra_data ag2))
           else (\<lambda>r. r)) r3))"
    by (auto simp: generate_results_def Let_def)
  show "extra_data ag' = extra_data ag" using a ag2 by simp
  show "\<exists>post. output_text ag' = output_text ag @ post" using a ag2 by simp
  show "map_of results ''extra_data'' = Some (JObj (extra_data ag))"
    if "extra_data ag \<noteq> []" "modify_results ag = (\<lambda>r. r)"
    using r that ag2 by (auto simp: update_conv')
qed

lemma update_not_Nil [simp]: "AList.update k v al \<noteq> []"
  by (cases al) auto

lemma output_text_update [simp]:
  "output_text (ag\<lparr> extra_data := ed \<rparr>) = output_text ag"
  "output_text (ag\<lparr> score := sc \<rparr>) = output_text ag"
  by (simp_all add: output_text_def)

lemma pull_prev_frame:
  assumes "pull_prev ag = Inr (ts, lb, ag')"
  shows "extra_data ag' = extra_data ag" and "modify_results ag' = modify_results ag"
    and "\<exists>post. output_text ag' = output_text ag @ post"
  using assms by (auto simp: pull_prev_def split: sum.splits bool.splits)


lemma deny_result:
  assumes "deny E rl tk n oldest rate ag = Inr out"
  shows "\<exists>ag' results post next_token_regen.
           next_regen (map_option (fromtimestamp E) oldest) rate = Inr next_token_regen
           \<and> out = Exited ag' results
           \<and> extra_data ag' = AList.update ''sub_counts'' (JInt 0) (extra_data ag)
           \<and> output_text ag'
               = output_text ag @ denied_string_of tk n rl @ [CHR 0x0A]
                 @ denied_regen_string E next_token_regen @ [CHR 0x0A] @ post
           \<and> (modify_results ag = (\<lambda>r. r) \<longrightarrow>
                map_of results ''extra_data'' = Some (JObj (extra_data ag')))"
proof -
  from assms obtain nx where
    nx: "next_regen (map_option (fromtimestamp E) oldest) rate = Inr nx"
    by (cases "next_regen (map_option (fromtimestamp E) oldest) rate")
       (auto simp: deny_def Let_def)
  let ?ag1 = "ag_print (denied_regen_string E nx)
                (ag_print (denied_string_of tk n rl)
                   (ag\<lparr> extra_data := AList.update ''sub_counts'' (JInt 0) (extra_data ag) \<rparr>))"
  let ?pp = "(if pull_prev_run rl then pull_prev ?ag1
              else Inr (JArr [], JNull, set_score (JInt 0) ?ag1))"
  have ag1: "extra_data ?ag1 = AList.update ''sub_counts'' (JInt 0) (extra_data ag)"
    "modify_results ?ag1 = modify_results ag"
    "output_text ?ag1 = output_text ag @ denied_string_of tk n rl @ [CHR 0x0A]
       @ denied_regen_string E nx @ [CHR 0x0A]"
    by simp_all
  from assms nx obtain ts lb ag2 where pp: "?pp = Inr (ts, lb, ag2)"
    by (cases ?pp) (auto simp: deny_def Let_def)
  then have ag2: "extra_data ag2 = extra_data ?ag1" "modify_results ag2 = modify_results ?ag1"
    "\<exists>post. output_text ag2 = output_text ?ag1 @ post"
    by (auto split: if_splits dest: pull_prev_frame)
  from assms nx pp obtain ag3 results where g: "generate_results ts lb ag2 = Inr (ag3, results)"
    and out: "out = Exited ag3 results"
    by (cases "generate_results ts lb ag2") (auto simp: deny_def Let_def)
  note f = generate_results_frame [OF g]
  have e: "extra_data ag3 = AList.update ''sub_counts'' (JInt 0) (extra_data ag)"
    using f(1) ag2(1) ag1(1) by simp
  obtain p1 where p1: "output_text ag2 = output_text ?ag1 @ p1" using ag2(3) by blast
  obtain p2 where p2: "output_text ag3 = output_text ag2 @ p2" using f(2) by blast
  have o: "output_text ag3
             = output_text ag @ denied_string_of tk n rl @ [CHR 0x0A]
               @ denied_regen_string E nx @ [CHR 0x0A] @ (p1 @ p2)"
    unfolding p2 p1 ag1(3) by simp
  have m: "map_of results ''extra_data'' = Some (JObj (extra_data ag3))"
    if "modify_results ag = (\<lambda>r. r)"
    using f(3) that ag2(1,2) ag1(1,2) e by simp
  from nx out e o m show ?thesis by blast
qed

lemma deny_without_replay:
  assumes "\<not> pull_prev_run rl"
    and "next_regen (map_option (fromtimestamp E) oldest) rate = Inr next_token_regen"
  shows "\<exists>ag' results. deny E rl tk n oldest rate ag = Inr (Exited ag' results)"
  using assms
  by (simp add: deny_def Let_def generate_results_def set_score_def ag_print_def)

lemma legacy_generate_results_extra_data:
  "extra_data ag \<noteq> [] \<Longrightarrow>
     map_of (legacy_generate_results ts ag) ''extra_data'' = Some (JObj (extra_data ag))"
  by (simp add: legacy_generate_results_def Let_def update_conv')

lemma legacy_deny_result:
  assumes "legacy_deny rl tk n ag = Inr out"
  shows "\<exists>ag' results.
           out = Exited ag' results
           \<and> extra_data ag' = AList.update ''sub_counts'' (JInt 0) (extra_data ag)
           \<and> output_text ag' = output_text ag @ legacy_denied_string tk n rl @ [CHR 0x0A]
           \<and> map_of results ''extra_data'' = Some (JObj (extra_data ag'))"
  using assms
  by (auto simp: legacy_deny_def Let_def legacy_generate_results_extra_data split: sum.splits)

lemma rate_limit_main_evaluated:
  assumes "\<not> (is_local E \<and> \<not> use_ratelimit_when_local ag)" "rate_limit ag = Some rl"
    "tokens rl = Some tk" "count_tokens E rl (metadata ag) = Inr ((n, oldest), now)"
    "timedelta (total_seconds rl) = Inr rate"
  shows "rate_limit_main E ag =
           (if n < tk then Inr (Returned (grant E rl tk n oldest now ag))
            else deny E rl tk n oldest rate ag)"
  using assms by (auto simp: rate_limit_main_def)

lemma legacy_rate_limit_main_evaluated:
  assumes "rate_limit ag = Some rl" "tokens rl = Some tk"
    "legacy_count_tokens E rl (metadata ag) = Inr n"
  shows "legacy_rate_limit_main E ag =
           (if n < tk
            then Inr (Returned
                   (ag_print (legacy_granted_string tk (n + 1) rl)
                      (ag\<lparr> extra_data := AList.update ''sub_counts'' (JInt 1) (extra_data ag) \<rparr>)))
            else legacy_deny rl tk n ag)"
  using assms by (simp add: legacy_rate_limit_main_def)

section \<open>Lemmas about the loop\<close>

lemma for_each_append:
  "for_each body (xs @ ys) st =
     (case for_each body xs st of Inl e \<Rightarrow> Inl e | Inr st' \<Rightarrow> for_each body ys st')"
  by (induction xs arbitrary: st) (auto split: sum.splits)

lemma loop_body_outside_window:
  "subm_time_of E v = Inr t \<Longrightarrow> regen \<le> now - t \<Longrightarrow>
     loop_body E ex now restart regen v st = Inr st"
  by (simp add: loop_body_def)

lemma legacy_loop_body_outside_window:
  "subm_time_of E v = Inr t \<Longrightarrow> regen \<le> now - t \<Longrightarrow>
     legacy_loop_body E now restart regen v n = Inr n"
  by (simp add: legacy_loop_body_def)

lemma loop_body_before_reset:
  "subm_time_of E v = Inr t \<Longrightarrow> t < r \<Longrightarrow>
     loop_body E ex now (Some r) regen v st = Inr st"
  by (simp add: loop_body_def)

lemma legacy_loop_body_before_reset:
  "subm_time_of E v = Inr t \<Longrightarrow> t < r \<Longrightarrow>
     legacy_loop_body E now (Some r) regen v n = Inr n"
  by (simp add: legacy_loop_body_def)

lemma for_each_skip:
  "(\<And>st. body v st = Inr st) \<Longrightarrow> for_each body (xs @ v # ys) st = for_each body (xs @ ys) st"
  by (simp add: for_each_append split: sum.splits)

lemma for_each_all_skipped:
  "(\<And>v. v \<in> set vs \<Longrightarrow> body v st = Inr st) \<Longrightarrow> for_each body vs st = Inr st"
  by (induction vs) auto

lemma count_tokens_skip:
  assumes "current_time_of E md' = current_time_of E md"
    and "history_of md = Inr (xs @ v # ys)" and "history_of md' = Inr (xs @ ys)"
    and "\<And>now restart st. current_time_of E md = Inr now \<Longrightarrow>
           parse_restart_time E (reset_time rl) = Inr restart \<Longrightarrow>
           loop_body E (submission_id_exclude rl) now restart (total_seconds rl) v st = Inr st"
  shows "count_tokens E rl md = count_tokens E rl md'"
  using assms by (simp add: count_tokens_def for_each_skip split: sum.splits)

lemma legacy_count_tokens_skip:
  assumes "current_time_of E md' = current_time_of E md"
    and "history_of md = Inr (xs @ v # ys)" and "history_of md' = Inr (xs @ ys)"
    and "\<And>now restart n. current_time_of E md = Inr now \<Longrightarrow>
           parse_restart_time E (reset_time rl) = Inr restart \<Longrightarrow>
           legacy_loop_body E now restart (total_seconds rl) v n = Inr n"
  shows "legacy_count_tokens E rl md = legacy_count_tokens E rl md'"
  using assms by (simp add: legacy_count_tokens_def for_each_skip split: sum.splits)

lemma count_tokens_all_skipped:
  assumes "current_time_of E md = Inr now" "parse_restart_time E (reset_time rl) = Inr restart"
    and "history_of md = Inr vs"
    and "\<And>v. v \<in> set vs \<Longrightarrow>
           loop_body E (submission_id_exclude rl) now restart (total_seconds rl) v (0, None) = Inr (0, None)"
  shows "count_tokens E rl md = Inr ((0, None), now)"
  using assms by (simp add: count_tokens_def for_each_all_skipped)

lemma legacy_count_tokens_all_skipped:
  assumes "current_time_of E md = Inr now" "parse_restart_time E (reset_time rl) = Inr restart"
    and "history_of md = Inr vs"
    and "\<And>v. v \<in> set vs \<Longrightarrow> legacy_loop_body E now restart (total_seconds rl) v 0 = Inr 0"
  shows "legacy_count_tokens E rl md = Inr 0"
  using assms by (simp add: legacy_count_tokens_def for_each_all_skipped)

lemma loop_body_in_window:
  "subm_time_of E v = Inr t \<Longrightarrow> (\<And>r. restart = Some r \<Longrightarrow> r \<le> t) \<Longrightarrow> now - t < regen \<Longrightarrow>
     loop_body E ex now restart regen v st =
       (case count_submission ex v t st of
          Inl e \<Rightarrow> Inr (fst st + 1, snd st)
        | Inr st' \<Rightarrow> Inr st')"
  by (cases restart) (auto simp: loop_body_def)

lemma legacy_loop_body_in_window:
  "subm_time_of E v = Inr t \<Longrightarrow> (\<And>r. restart = Some r \<Longrightarrow> r \<le> t) \<Longrightarrow> now - t < regen \<Longrightarrow>
     legacy_loop_body E now restart regen v n =
       (case legacy_count_submission v n of Inl e \<Rightarrow> Inr (n + 1) | Inr n' \<Rightarrow> Inr n')"
  by (cases restart) (auto simp: legacy_loop_body_def)

lemma count_tokens_config:
  assumes "reset_time rl' = reset_time rl" "submission_id_exclude rl' = submission_id_exclude rl"
    "total_seconds rl' = total_seconds rl"
  shows "count_tokens E rl' md = count_tokens E rl md"
  unfolding count_tokens_def assms ..

lemma deny_not_returned: "deny E rl tk n oldest rate ag \<noteq> Inr (Returned ag')"
  using deny_result [of E rl tk n oldest rate ag "Returned ag'"] by auto

lemma grant_twice:
  assumes "rate_limit (grant E rl tk n oldest now ag) = Some rl'"
  shows "grant E rl' tk n oldest now (grant E rl tk n oldest now ag)
           = grant E rl tk n oldest now ag"
  using assms
  by (auto simp: grant_def set_next_token_regen_def rate_limit_set_main_string_def
      main_string_of_def main_string_with_def)

lemma rate_limit_main_returned:
  assumes "rate_limit_main E ag = Inr (Returned ag')"
  shows "ag' = ag
         \<or> (\<exists>rl tk n oldest now rate.
               \<not> (is_local E \<and> \<not> use_ratelimit_when_local ag) \<and> rate_limit ag = Some rl
               \<and> tokens rl = Some tk
               \<and> count_tokens E rl (metadata ag) = Inr ((n, oldest), now)
               \<and> timedelta (total_seconds rl) = Inr rate \<and> n < tk
               \<and> ag' = grant E rl tk n oldest now ag)"
  using assms
  by (auto simp: rate_limit_main_def deny_not_returned split: if_splits option.splits sum.splits)





lemma digit_char_value: "k < 10 \<Longrightarrow> of_char (''0123456789'' ! k) - 48 = (k::nat)"
proof -
  assume "k < 10"
  then have "k \<in> {0,1,2,3,4,5,6,7,8,9}" by auto
  then show ?thesis by auto
qed

lemma digits_value_str_nat: "digits_value (str_nat n) = n"
proof (induction n rule: str_nat.induct)
  case (1 n)
  show ?case
  proof (cases "n < 10")
    case True
    then show ?thesis
      by (subst str_nat.simps) (simp add: digits_value_def digit_char_value)
  next
    case False
    with 1 have ih: "digits_value (str_nat (n div 10)) = n div 10" by simp
    have "digits_value (str_nat n)
            = 10 * digits_value (str_nat (n div 10)) + (of_char (''0123456789'' ! (n mod 10)) - 48)"
      using False by (subst str_nat.simps) (simp add: digits_value_def)
    also have "\<dots> = 10 * (n div 10) + n mod 10"
      by (simp only: ih digit_char_value [of "n mod 10", simplified])
    finally show ?thesis by simp
  qed
qed

lemma digits_value_str_int: "0 \<le> n \<Longrightarrow> digits_value (str_int n) = nat n"
  by (simp add: str_int_def digits_value_str_nat)

lemma is_substring_iff: "is_substring k s \<longleftrightarrow> (\<exists>p q. s = p @ k @ q)"
proof
  assume "is_substring k s"
  then obtain i where i: "take (length k) (drop i s) = k"
    unfolding is_substring_def list_ex_iff by blast
  have "take (length k) (drop i s) @ drop (length k) (drop i s) = drop i s"
    by (rule append_take_drop_id)
  with i have "k @ drop (length k) (drop i s) = drop i s" by (simp only:)
  moreover have "take i s @ drop i s = s" by (rule append_take_drop_id)
  ultimately have "s = take i s @ k @ drop (length k) (drop i s)" by (simp only:)
  then show "\<exists>p q. s = p @ k @ q" by blast
next
  assume "\<exists>p q. s = p @ k @ q"
  then show "is_substring k s" by (auto simp: is_substring_middle)
qed

lemma is_substring_embedded: "is_substring k m \<Longrightarrow> is_substring k (p @ m @ q)"
proof -
  assume "is_substring k m"
  then obtain a b where "m = a @ k @ b" unfolding is_substring_iff by blast
  then have "p @ m @ q = (p @ a) @ k @ (b @ q)" by simp
  then show ?thesis by (simp only: is_substring_middle)
qed

lemma main_string_with_reports:
  "is_substring (''. In the last period, you have had '' @ c @ '' graded submissions.'')
     (main_string_with tk c rl)"
proof -
  have "main_string_with tk c rl
          = (''[Rate Limit]: Students can get up to '' @ str_int tk
             @ '' graded submissions within any given period of ''
             @ pretty_time_str (seconds rl) (minutes rl) (hours rl) (days rl))
            @ (''. In the last period, you have had '' @ c @ '' graded submissions.'')
            @ [CHR 0x0A]"
    by (simp add: main_string_with_def)
  then show ?thesis by (simp only: is_substring_middle)
qed

lemma denied_string_of_reports:
  "is_substring (''. You have already had '' @ str_int tu @ '' graded submissions within the last '')
     (denied_string_of tk tu rl)"
proof -
  have "denied_string_of tk tu rl
          = (''[Rate Limit]: Students can get up to '' @ str_int tk
             @ '' graded submissions within any given period of ''
             @ pretty_time_str (seconds rl) (minutes rl) (hours rl) (days rl))
            @ (''. You have already had '' @ str_int tu @ '' graded submissions within the last '')
            @ (pretty_time_str (seconds rl) (minutes rl) (hours rl) (days rl)
               @ (if pull_prev_run rl
                  then '', so the results of your last graded submission are being displayed.''
                  else ''.'')
               @ '' Because you do not have any more tokens, this submission will not count as a graded submission.'')"
    by (simp add: denied_string_of_def)
  then show ?thesis by (simp only: is_substring_middle)
qed

lemma legacy_granted_string_reports:
  "is_substring (''. In the last period, you have had '' @ str_int tu @ '' graded submissions.'')
     (legacy_granted_string tk tu rl)"
proof -
  have "legacy_granted_string tk tu rl
          = (''Students can get up to '' @ str_int tk
             @ '' graded submissions within any given period of ''
             @ pretty_time_str (seconds rl) (minutes rl) (hours rl) (days rl))
            @ (''. In the last period, you have had '' @ str_int tu @ '' graded submissions.'')
            @ []"
    by (simp add: legacy_granted_string_def)
  then show ?thesis by (simp only: is_substring_middle)
qed

lemma legacy_denied_string_reports:
  "is_substring (''. You have already had '' @ str_int tu @ '' graded submissions within the last '')
     (legacy_denied_string tk tu rl)"
proof -
  have "legacy_denied_string tk tu rl
          = (''Students can get up to '' @ str_int tk
             @ '' graded submissions within any given period of ''
             @ pretty_time_str (seconds rl) (minutes rl) (hours rl) (days rl))
            @ (''. You have already had '' @ str_int tu @ '' graded submissions within the last '')
            @ (pretty_time_str (seconds rl) (minutes rl) (hours rl) (days rl)
               @ '', so the results of your last graded submission are being displayed. This submission will not count as a graded submission.'')"
    by (simp add: legacy_denied_string_def)
  then show ?thesis by (simp only: is_substring_middle)
qed

lemma loop_body_count_nonneg:
  "loop_body E ex now restart regen v (n, od) = Inr (n', od') \<Longrightarrow> 0 \<le> n \<Longrightarrow> 0 \<le> n'"
  by (auto simp: loop_body_def count_submission_def split: sum.splits if_splits option.splits)

lemma for_each_count_nonneg:
  "for_each (loop_body E ex now restart regen) vs (n, od) = Inr (n', od') \<Longrightarrow> 0 \<le> n \<Longrightarrow> 0 \<le> n'"
proof (induction vs arbitrary: n od)
  case Nil
  then show ?case by simp
next
  case (Cons v vs)
  from Cons.prems(1) obtain n1 od1 where
    b: "loop_body E ex now restart regen v (n, od) = Inr (n1, od1)"
    and r: "for_each (loop_body E ex now restart regen) vs (n1, od1) = Inr (n', od')"
    by (auto split: sum.splits)
  from loop_body_count_nonneg [OF b Cons.prems(2)] Cons.IH [OF r] show ?case by simp
qed

lemma count_tokens_nonneg: "count_tokens E rl md = Inr ((n, od), now) \<Longrightarrow> 0 \<le> n"
  by (auto simp: count_tokens_def split: sum.splits dest: for_each_count_nonneg)

lemma legacy_loop_body_count_nonneg:
  "legacy_loop_body E now restart regen v n = Inr n' \<Longrightarrow> 0 \<le> n \<Longrightarrow> 0 \<le> n'"
  by (auto simp: legacy_loop_body_def legacy_count_submission_def
      split: sum.splits if_splits option.splits)

lemma legacy_for_each_count_nonneg:
  "for_each (legacy_loop_body E now restart regen) vs n = Inr n' \<Longrightarrow> 0 \<le> n \<Longrightarrow> 0 \<le> n'"
proof (induction vs arbitrary: n)
  case Nil
  then show ?case by simp
next
  case (Cons v vs)
  from Cons.prems(1) obtain n1 where
    b: "legacy_loop_body E now restart regen v n = Inr n1"
    and r: "for_each (legacy_loop_body E now restart regen) vs n1 = Inr n'"
    by (auto split: sum.splits)
  from legacy_loop_body_count_nonneg [OF b Cons.prems(2)] Cons.IH [OF r] show ?case by simp
qed

lemma legacy_count_tokens_nonneg: "legacy_count_tokens E rl md = Inr n \<Longrightarrow> 0 \<le> n"
  by (auto simp: legacy_count_tokens_def split: sum.splits dest: legacy_for_each_count_nonneg)

section \<open>The example data, evaluated\<close>

lemma example_strings:
  "str_int 1 = ''1''" "str_int 24 = ''24''"
  "str_int 1578002400 = ''1578002400''" "str_int 1578009600 = ''1578009600''"
  "pretty_time_str 0 0 24 0 = ''24 hours''"
  by (simp_all add: str_int_def str_nat.simps pretty_time_str_def Let_def)

lemma example_subm_time:
  "subm_time_of example_env (example_submission ''06:00:00'' res) = Inr 1577858400"
  "subm_time_of example_env (example_submission ''12:00:00'' res) = Inr 1577880000"
  "subm_time_of example_env (example_submission ''22:00:00'' res) = Inr 1577916000"
  by (simp_all add: subm_time_of_def example_submission_def example_env_def
      parse_submission_time_def get_submission_time_def example_clock_def)

lemma example_metadata:
  "current_time_of example_env (metadata (example_autograder rl vs)) = Inr 1577923200"
  "history_of (metadata (example_autograder rl vs)) = Inr vs"
  by (simp_all add: current_time_of_def history_of_def example_autograder_def example_env_def
      parse_submission_time_def get_submission_time_def example_clock_def)

lemma example_rate_limit_simps:
  "tokens (example_rate_limit h) = Some 1"
  "total_seconds (example_rate_limit h) = 3600 * h"
  "reset_time (example_rate_limit h) = None"
  "submission_id_exclude (example_rate_limit h) = []"
  "pull_prev_run (example_rate_limit h)"
  "seconds (example_rate_limit h) = 0" "minutes (example_rate_limit h) = 0"
  "hours (example_rate_limit h) = h" "days (example_rate_limit h) = 0"
  by (simp_all add: example_rate_limit_def total_seconds_def)

lemma example_env_simps:
  "is_local example_env = False"
  "fromtimestamp example_env t = t"
  "ctime example_env = str_int"
  "mktime_strptime example_env ''2020-01-01T12:00:00'' = Some 1577880000"
  by (simp_all add: example_env_def example_clock_def)

lemma example_autograder_simps:
  "rate_limit (example_autograder rl vs) = Some rl"
  "use_ratelimit_when_local (example_autograder rl vs) = False"
  "extra_data (example_autograder rl vs) = [(''id'', JInt 52)]"
  "ag_output (example_autograder rl vs) = None"
  "score (example_autograder rl vs) = JNull"
  "leaderboard (example_autograder rl vs) = JNull"
  "modify_results (example_autograder rl vs) = (\<lambda>results. results)"
  "output_text (example_autograder rl vs) = []"
  by (simp_all add: example_autograder_def output_text_def)

lemma example_payload:
  "py_getitem (example_submission hms res) ''results'' = Inr res"
  "py_getitem (example_results ed) ''extra_data'' = Inr (JObj ed)"
  "py_getitem example_counted ''extra_data''
     = Inr (JObj [(''id'', JInt 51), (''sub_counts'', JInt 1)])"
  by (simp_all add: example_submission_def example_results_def example_counted_def)

lemma example_bare_subm_time:
  "subm_time_of example_env
       (JObj [(''submission_time'', JStr ''2020-01-01T22:00:00.000000-08:00'')])
     = Inr 1577916000"
  by (simp add: subm_time_of_def example_env_def parse_submission_time_def
      get_submission_time_def example_clock_def)

lemma example_counts:
  "count_tokens example_env (example_rate_limit 24)
     (metadata (example_autograder (example_rate_limit 24) []))
   = Inr ((0, None), 1577923200)"
  "count_tokens example_env (example_rate_limit 24)
     (metadata (example_autograder (example_rate_limit 24)
        [example_submission ''22:00:00'' example_counted]))
   = Inr ((1, Some 1577916000), 1577923200)"
  "legacy_count_tokens example_env (example_rate_limit 24)
     (metadata (example_autograder (example_rate_limit 24) []))
   = Inr 0"
  "legacy_count_tokens example_env (example_rate_limit 24)
     (metadata (example_autograder (example_rate_limit 24)
        [example_submission ''22:00:00'' example_counted]))
   = Inr 1"
  by (simp_all add: count_tokens_def legacy_count_tokens_def loop_body_def legacy_loop_body_def
      count_submission_def legacy_count_submission_def example_metadata example_subm_time
      example_payload example_rate_limit_simps parse_restart_time_def py_in_list_def)

lemma example_denial:
  "rate_limit_main example_env
     (example_autograder (example_rate_limit 24)
        [example_submission ''22:00:00'' example_counted])
   = Inr (Exited example_denied example_replay)"
proof -
  have "rate_limit_main example_env
          (example_autograder (example_rate_limit 24)
             [example_submission ''22:00:00'' example_counted])
        = deny example_env (example_rate_limit 24) 1 1 (Some 1577916000) 86400
            (example_autograder (example_rate_limit 24)
               [example_submission ''22:00:00'' example_counted])"
    by (simp add: rate_limit_main_def example_counts example_env_simps
        example_autograder_simps example_rate_limit_simps timedelta_def)
  also have "\<dots> = Inr (Exited example_denied example_replay)"
    by (simp add: deny_def Let_def pull_prev_def prev_run_unusable_def generate_results_def
        example_rate_limit_simps example_env_simps example_autograder_def
        example_submission_def example_results_def example_counted_def ag_print_def
        set_score_def example_denied_def example_replay_def next_regen_def datetime_add_def
        example_denied_text_def denied_string_of_def denied_regen_string_def example_strings)
  finally show ?thesis .
qed

lemma legacy_example_denial:
  "legacy_rate_limit_main example_env
     (example_autograder (example_rate_limit 24)
        [example_submission ''22:00:00'' example_counted])
   = Inr (Exited legacy_example_denied legacy_example_replay)"
proof -
  have "legacy_rate_limit_main example_env
          (example_autograder (example_rate_limit 24)
             [example_submission ''22:00:00'' example_counted])
        = legacy_deny (example_rate_limit 24) 1 1
            (example_autograder (example_rate_limit 24)
               [example_submission ''22:00:00'' example_counted])"
    by (simp add: legacy_rate_limit_main_def example_counts example_autograder_simps
        example_rate_limit_simps)
  also have "\<dots> = Inr (Exited legacy_example_denied legacy_example_replay)"
    by (simp add: legacy_deny_def Let_def legacy_generate_results_def
        example_autograder_def example_submission_def example_results_def
        example_counted_def ag_print_def legacy_example_denied_def
        legacy_example_replay_def legacy_example_denied_text_def legacy_denied_string_def
        example_rate_limit_simps example_strings)
  finally show ?thesis .
qed

lemma example_grant:
  "rate_limit_main example_env (example_autograder (example_rate_limit 24) [])
   = Inr (Returned
       (grant example_env (example_rate_limit 24) 1 0 None 1577923200
          (example_autograder (example_rate_limit 24) [])))"
  by (simp add: rate_limit_main_def example_counts example_env_simps
      example_autograder_simps example_rate_limit_simps timedelta_def)

lemma example_grant_text:
  "get_rate_limit_str example_env
     ((example_rate_limit 24)
        \<lparr> oldest_token_time := None, current_submission_time := Some 1577923200,
          main_string := main_string_of 1 (example_rate_limit 24), tokens_used := Some 1 \<rparr>)
     (grant example_env (example_rate_limit 24) 1 0 None 1577923200
        (example_autograder (example_rate_limit 24) []))
   = Inr example_granted_text"
proof -
  have "timedelta (total_seconds (example_rate_limit 24)) = Inr 86400"
    by (simp add: example_rate_limit_simps timedelta_def)
  from get_rate_limit_str_granted
    [OF this refl, where E = example_env and oldest = None and now = 1577923200
       and tk = 1 and n = 0 and ag = "example_autograder (example_rate_limit 24) []"]
  show ?thesis
    by (simp add: example_env_simps datetime_add_def main_string_with_def
        next_token_regen_str_def example_rate_limit_simps example_strings
        example_granted_text_def)
qed

lemma example_no_replay_counts:
  "count_tokens example_env ((example_rate_limit 24)\<lparr> pull_prev_run := False \<rparr>)
     (metadata (example_autograder ((example_rate_limit 24)\<lparr> pull_prev_run := False \<rparr>)
        [example_submission ''22:00:00'' example_counted]))
   = Inr ((1, Some 1577916000), 1577923200)"
proof -
  have m: "metadata (example_autograder ((example_rate_limit 24)\<lparr> pull_prev_run := False \<rparr>) vs)
             = metadata (example_autograder (example_rate_limit 24) vs)" for vs
    by (simp add: example_autograder_def)
  have "count_tokens example_env ((example_rate_limit 24)\<lparr> pull_prev_run := False \<rparr>) md
          = count_tokens example_env (example_rate_limit 24) md" for md
    by (rule count_tokens_config) (simp_all add: total_seconds_def)
  then show ?thesis by (simp only: m example_counts)
qed

section \<open>Properties\<close>

subsection \<open>The local run\<close>

text \<open>
  Claim C10. When the run is local and \<^verbatim>\<open>use_ratelimit_when_local\<close> is false,
  \<^verbatim>\<open>rate_limit_main\<close> returns at once, whatever the capacity and the history are: the
  autograder is the one it was given, so no token is counted, \<^verbatim>\<open>extra_data\<close> has no new
  \<^verbatim>\<open>sub_counts\<close>, and \<^verbatim>\<open>execute\<close> goes on to run the tests.
\<close>

theorem local_run_skips_rate_limit:
  "is_local E \<Longrightarrow> \<not> use_ratelimit_when_local ag \<Longrightarrow> rate_limit_main E ag = Inr (Returned ag)"
  by (simp add: rate_limit_main_def)

theorem local_run_skips_rate_limit_witness:
  "is_local (example_env\<lparr> is_local := True \<rparr>)
   \<and> \<not> use_ratelimit_when_local
         (example_autograder (example_rate_limit 24)
            [example_submission ''22:00:00''
               example_counted])
   \<and> rate_limit_main (example_env\<lparr> is_local := True \<rparr>)
         (example_autograder (example_rate_limit 24)
            [example_submission ''22:00:00''
               example_counted])
       = Inr (Returned
           (example_autograder (example_rate_limit 24)
              [example_submission ''22:00:00''
                 example_counted]))"
  using local_run_skips_rate_limit
    [of "example_env\<lparr> is_local := True \<rparr>"
        "example_autograder (example_rate_limit 24)
           [example_submission ''22:00:00''
              example_counted]"]
  by (simp add: example_env_def example_autograder_def)

subsection \<open>The regeneration window and the reset time\<close>

text \<open>
  Claim C5. A previous submission whose age, the current time minus its submission
  time, is at least the window's total seconds is skipped by the loop of both
  revisions: the loop state is unchanged, and the count is the one of the history
  without that submission. When every previous submission is that old, no token is
  counted, and with a capacity of at least 1 the submission is allowed:
  \<^verbatim>\<open>rate_limit_main\<close> returns with \<^verbatim>\<open>sub_counts\<close> set to 1. (The timestamps are assumed to
  parse and the window to fit a \<^verbatim>\<open>timedelta\<close>; otherwise the function raises.)
\<close>

theorem outside_window_uses_no_token:
  "(subm_time_of E v = Inr t \<longrightarrow> regen \<le> now - t \<longrightarrow>
      loop_body E ex now restart regen v st = Inr st
      \<and> legacy_loop_body E now restart regen v n = Inr n)
   \<and> (current_time_of E md' = current_time_of E md \<longrightarrow>
        history_of md = Inr (xs @ v # ys) \<longrightarrow> history_of md' = Inr (xs @ ys) \<longrightarrow>
        (\<forall>now. current_time_of E md = Inr now \<longrightarrow>
           (\<exists>t. subm_time_of E v = Inr t \<and> total_seconds rl \<le> now - t)) \<longrightarrow>
        count_tokens E rl md = count_tokens E rl md'
        \<and> legacy_count_tokens E rl md = legacy_count_tokens E rl md')
   \<and> (current_time_of E (metadata ag) = Inr now \<longrightarrow>
        parse_restart_time E (reset_time rl) = Inr restart \<longrightarrow>
        history_of (metadata ag) = Inr vs \<longrightarrow>
        (\<forall>v \<in> set vs. \<exists>t. subm_time_of E v = Inr t \<and> total_seconds rl \<le> now - t) \<longrightarrow>
        count_tokens E rl (metadata ag) = Inr ((0, None), now)
        \<and> legacy_count_tokens E rl (metadata ag) = Inr 0
        \<and> (rate_limit ag = Some rl \<longrightarrow> tokens rl = Some tk \<longrightarrow> 1 \<le> tk \<longrightarrow>
             legacy_rate_limit_main E ag
               = Inr (Returned
                   (ag_print (legacy_granted_string tk 1 rl)
                      (ag\<lparr> extra_data := AList.update ''sub_counts'' (JInt 1) (extra_data ag) \<rparr>)))
             \<and> (timedelta (total_seconds rl) = Inr rate \<longrightarrow>
                  rate_limit_main E ag
                    = Inr (Returned (if is_local E \<and> \<not> use_ratelimit_when_local ag then ag
                                     else grant E rl tk 0 None now ag)))))"
proof (intro conjI impI)
  assume "subm_time_of E v = Inr t" "regen \<le> now - t"
  then show "loop_body E ex now restart regen v st = Inr st"
    and "legacy_loop_body E now restart regen v n = Inr n"
    by (simp_all add: loop_body_outside_window legacy_loop_body_outside_window)
next
  assume h: "current_time_of E md' = current_time_of E md"
    "history_of md = Inr (xs @ v # ys)" "history_of md' = Inr (xs @ ys)"
    "\<forall>now. current_time_of E md = Inr now \<longrightarrow>
       (\<exists>t. subm_time_of E v = Inr t \<and> total_seconds rl \<le> now - t)"
  show "count_tokens E rl md = count_tokens E rl md'"
    by (rule count_tokens_skip [OF h(1-3)]) (use h(4) in \<open>auto simp: loop_body_outside_window\<close>)
  show "legacy_count_tokens E rl md = legacy_count_tokens E rl md'"
    by (rule legacy_count_tokens_skip [OF h(1-3)])
       (use h(4) in \<open>auto simp: legacy_loop_body_outside_window\<close>)
next
  assume h: "current_time_of E (metadata ag) = Inr now"
    "parse_restart_time E (reset_time rl) = Inr restart"
    "history_of (metadata ag) = Inr vs"
    "\<forall>v \<in> set vs. \<exists>t. subm_time_of E v = Inr t \<and> total_seconds rl \<le> now - t"
  show c: "count_tokens E rl (metadata ag) = Inr ((0, None), now)"
    by (rule count_tokens_all_skipped [OF h(1-3)]) (use h(4) in \<open>auto simp: loop_body_outside_window\<close>)
  show l: "legacy_count_tokens E rl (metadata ag) = Inr 0"
    by (rule legacy_count_tokens_all_skipped [OF h(1-3)])
       (use h(4) in \<open>auto simp: legacy_loop_body_outside_window\<close>)
  assume k: "rate_limit ag = Some rl" "tokens rl = Some tk" "1 \<le> tk"
  show "legacy_rate_limit_main E ag
          = Inr (Returned
              (ag_print (legacy_granted_string tk 1 rl)
                 (ag\<lparr> extra_data := AList.update ''sub_counts'' (JInt 1) (extra_data ag) \<rparr>)))"
    using k l by (simp add: legacy_rate_limit_main_def)
  assume "timedelta (total_seconds rl) = Inr rate"
  then show "rate_limit_main E ag
          = Inr (Returned (if is_local E \<and> \<not> use_ratelimit_when_local ag then ag
                           else grant E rl tk 0 None now ag))"
    using k c by (simp add: rate_limit_main_def)
qed

theorem outside_window_uses_no_token_witness:
  "subm_time_of example_env (example_submission ''06:00:00'' example_counted) = Inr 1577858400
   \<and> (43200::int) \<le> 1577923200 - 1577858400
   \<and> loop_body example_env [] 1577923200 None 43200
         (example_submission ''06:00:00'' example_counted) (0, None) = Inr (0, None)
   \<and> legacy_loop_body example_env 1577923200 None 43200
         (example_submission ''06:00:00'' example_counted) 0 = Inr 0
   \<and> count_tokens example_env (example_rate_limit 12)
         (metadata (example_autograder (example_rate_limit 12)
            [example_submission ''06:00:00'' example_counted,
             example_submission ''22:00:00'' example_counted]))
       = count_tokens example_env (example_rate_limit 12)
           (metadata (example_autograder (example_rate_limit 12)
              [example_submission ''22:00:00'' example_counted]))
   \<and> count_tokens example_env (example_rate_limit 12)
         (metadata (example_autograder (example_rate_limit 12)
            [example_submission ''06:00:00'' example_counted]))
       = Inr ((0, None), 1577923200)
   \<and> legacy_count_tokens example_env (example_rate_limit 12)
         (metadata (example_autograder (example_rate_limit 12)
            [example_submission ''06:00:00'' example_counted]))
       = Inr 0
   \<and> rate_limit_main example_env
         (example_autograder (example_rate_limit 12)
            [example_submission ''06:00:00'' example_counted])
       = Inr (Returned
           (grant example_env (example_rate_limit 12) 1 0 None 1577923200
              (example_autograder (example_rate_limit 12)
                 [example_submission ''06:00:00'' example_counted])))"
  using outside_window_uses_no_token
    [where E = example_env and v = "example_submission ''06:00:00'' example_counted"
       and t = 1577858400 and regen = 43200 and now = 1577923200 and ex = "[]"
       and restart = None and st = "(0, None)" and n = 0
       and md = "metadata (example_autograder (example_rate_limit 12)
                   [example_submission ''06:00:00'' example_counted,
                    example_submission ''22:00:00'' example_counted])"
       and md' = "metadata (example_autograder (example_rate_limit 12)
                   [example_submission ''22:00:00'' example_counted])"
       and xs = "[]" and ys = "[example_submission ''22:00:00'' example_counted]"
       and rl = "example_rate_limit 12"
       and ag = "example_autograder (example_rate_limit 12)
                   [example_submission ''06:00:00'' example_counted]"
       and vs = "[example_submission ''06:00:00'' example_counted]"
       and tk = 1 and rate = 43200]
  by (simp add: example_subm_time example_metadata example_rate_limit_simps
      example_env_simps example_autograder_simps parse_restart_time_def timedelta_def)

text \<open>
  Claim C6. When a reset time is configured, a previous submission whose submission
  time is strictly before it is skipped by the loop of both revisions, whatever the
  window and the current time are: the loop state is unchanged, and the count is the
  one of the history without that submission. A submission at or after the reset time
  is treated as it is when no reset time is configured.
\<close>

theorem reset_time_filters_earlier_submissions:
  "(subm_time_of E v = Inr t \<longrightarrow> t < r \<longrightarrow>
      loop_body E ex now (Some r) regen v st = Inr st
      \<and> legacy_loop_body E now (Some r) regen v n = Inr n)
   \<and> (subm_time_of E v = Inr t \<longrightarrow> r \<le> t \<longrightarrow>
        loop_body E ex now (Some r) regen v st = loop_body E ex now None regen v st
        \<and> legacy_loop_body E now (Some r) regen v n = legacy_loop_body E now None regen v n)
   \<and> (reset_time rl = Some s \<longrightarrow> mktime_strptime E s = Some r \<longrightarrow>
        current_time_of E md' = current_time_of E md \<longrightarrow>
        history_of md = Inr (xs @ v # ys) \<longrightarrow> history_of md' = Inr (xs @ ys) \<longrightarrow>
        subm_time_of E v = Inr t \<longrightarrow> t < r \<longrightarrow>
        count_tokens E rl md = count_tokens E rl md'
        \<and> legacy_count_tokens E rl md = legacy_count_tokens E rl md')"
proof (intro conjI impI)
  assume "subm_time_of E v = Inr t" "t < r"
  then show "loop_body E ex now (Some r) regen v st = Inr st"
    and "legacy_loop_body E now (Some r) regen v n = Inr n"
    by (simp_all add: loop_body_before_reset legacy_loop_body_before_reset)
next
  assume "subm_time_of E v = Inr t" "r \<le> t"
  then show "loop_body E ex now (Some r) regen v st = loop_body E ex now None regen v st"
    and "legacy_loop_body E now (Some r) regen v n = legacy_loop_body E now None regen v n"
    by (simp_all add: loop_body_def legacy_loop_body_def)
next
  assume h: "reset_time rl = Some s" "mktime_strptime E s = Some r"
    "current_time_of E md' = current_time_of E md"
    "history_of md = Inr (xs @ v # ys)" "history_of md' = Inr (xs @ ys)"
    "subm_time_of E v = Inr t" "t < r"
  have r: "parse_restart_time E (reset_time rl) = Inr (Some r)"
    using h(1,2) by (simp add: parse_restart_time_def)
  show "count_tokens E rl md = count_tokens E rl md'"
    by (rule count_tokens_skip [OF h(3-5)]) (use r h(6,7) in \<open>auto simp: loop_body_before_reset\<close>)
  show "legacy_count_tokens E rl md = legacy_count_tokens E rl md'"
    by (rule legacy_count_tokens_skip [OF h(3-5)])
       (use r h(6,7) in \<open>auto simp: legacy_loop_body_before_reset\<close>)
qed

theorem reset_time_filters_earlier_submissions_witness:
  "subm_time_of example_env (example_submission ''06:00:00'' example_counted) = Inr 1577858400
   \<and> (1577858400::int) < 1577880000
   \<and> loop_body example_env [] 1577923200 (Some 1577880000) 86400
         (example_submission ''06:00:00'' example_counted) (0, None) = Inr (0, None)
   \<and> legacy_loop_body example_env 1577923200 (Some 1577880000) 86400
         (example_submission ''06:00:00'' example_counted) 0 = Inr 0
   \<and> count_tokens example_env
         ((example_rate_limit 24)\<lparr> reset_time := Some ''2020-01-01T12:00:00'' \<rparr>)
         (metadata (example_autograder (example_rate_limit 24)
            [example_submission ''06:00:00'' example_counted,
             example_submission ''22:00:00'' example_counted]))
       = count_tokens example_env
           ((example_rate_limit 24)\<lparr> reset_time := Some ''2020-01-01T12:00:00'' \<rparr>)
           (metadata (example_autograder (example_rate_limit 24)
              [example_submission ''22:00:00'' example_counted]))
   \<and> subm_time_of example_env (example_submission ''12:00:00'' example_counted) = Inr 1577880000
   \<and> (1577880000::int) \<le> 1577880000
   \<and> loop_body example_env [] 1577923200 (Some 1577880000) 86400
         (example_submission ''12:00:00'' example_counted) (0, None)
       = loop_body example_env [] 1577923200 None 86400
           (example_submission ''12:00:00'' example_counted) (0, None)"
  using reset_time_filters_earlier_submissions
    [where E = example_env and v = "example_submission ''06:00:00'' example_counted"
       and t = 1577858400 and r = 1577880000 and regen = 86400 and now = 1577923200
       and ex = "[]" and st = "(0, None)" and n = 0 and s = "''2020-01-01T12:00:00''"
       and rl = "(example_rate_limit 24)\<lparr> reset_time := Some ''2020-01-01T12:00:00'' \<rparr>"
       and md = "metadata (example_autograder (example_rate_limit 24)
                   [example_submission ''06:00:00'' example_counted,
                    example_submission ''22:00:00'' example_counted])"
       and md' = "metadata (example_autograder (example_rate_limit 24)
                   [example_submission ''22:00:00'' example_counted])"
       and xs = "[]" and ys = "[example_submission ''22:00:00'' example_counted]"]
    reset_time_filters_earlier_submissions
    [where E = example_env and v = "example_submission ''12:00:00'' example_counted"
       and t = 1577880000 and r = 1577880000 and regen = 86400 and now = 1577923200
       and ex = "[]" and st = "(0, None)"]
  by (simp add: example_subm_time example_metadata example_env_simps)

subsection \<open>Which previous submissions use a token\<close>

text \<open>
  Claim C3, as the code has it. For a previous submission inside the window whose
  results hold an \<^verbatim>\<open>extra_data\<close> dictionary with a \<^verbatim>\<open>sub_counts\<close> entry, the loop adds one
  token exactly when \<^verbatim>\<open>sub_counts\<close> equals 1, the \<^verbatim>\<open>id\<close> of \<^verbatim>\<open>extra_data\<close> is present and
  true as a condition (not \<^verbatim>\<open>None\<close>, not empty, not 0), and that id is not in
  \<^verbatim>\<open>submission_id_exclude\<close>; otherwise the loop state is unchanged. In particular a
  submission whose id is in the exclusion list adds nothing.
\<close>

theorem token_used_iff_counted_with_id_not_excluded:
  "subm_time_of E v = Inr t \<longrightarrow> (\<forall>r. restart = Some r \<longrightarrow> r \<le> t) \<longrightarrow> now - t < regen \<longrightarrow>
   py_getitem v ''results'' = Inr res \<longrightarrow> py_getitem res ''extra_data'' = Inr (JObj ed) \<longrightarrow>
   map_of ed ''sub_counts'' = Some sc \<longrightarrow>
   sid = (case map_of ed ''id'' of None \<Rightarrow> JNull | Some x \<Rightarrow> x) \<longrightarrow>
     loop_body E ex now restart regen v (n, oldest)
       = Inr (if py_eq sc (JInt 1) \<and> py_truthy sid \<and> \<not> py_in_list sid ex
              then (n + 1, (case oldest of None \<Rightarrow> Some t | Some t' \<Rightarrow> Some t'))
              else (n, oldest))
     \<and> (py_in_list sid ex \<longrightarrow> loop_body E ex now restart regen v (n, oldest) = Inr (n, oldest))"
  by (auto simp: loop_body_in_window count_submission_def split: option.splits)

theorem token_used_iff_counted_with_id_not_excluded_witness:
  "subm_time_of example_env (example_submission ''22:00:00'' example_counted) = Inr 1577916000
   \<and> (1577923200::int) - 1577916000 < 86400
   \<and> py_getitem (example_submission ''22:00:00'' example_counted) ''results'' = Inr example_counted
   \<and> py_getitem example_counted ''extra_data''
       = Inr (JObj [(''id'', JInt 51), (''sub_counts'', JInt 1)])
   \<and> map_of [(''id'', JInt 51), (''sub_counts'', JInt 1)] ''sub_counts'' = Some (JInt 1)
   \<and> loop_body example_env [] 1577923200 None 86400
         (example_submission ''22:00:00'' example_counted) (0, None)
       = Inr (1, Some 1577916000)
   \<and> py_in_list (JInt 51) [JInt 51]
   \<and> loop_body example_env [JInt 51] 1577923200 None 86400
         (example_submission ''22:00:00'' example_counted) (0, None)
       = Inr (0, None)"
  using token_used_iff_counted_with_id_not_excluded
    [where E = example_env and v = "example_submission ''22:00:00'' example_counted"
       and t = 1577916000 and restart = None and now = 1577923200 and regen = 86400
       and res = example_counted and ed = "[(''id'', JInt 51), (''sub_counts'', JInt 1)]"
       and sc = "JInt 1" and sid = "JInt 51" and ex = "[]" and n = 0 and oldest = None]
    token_used_iff_counted_with_id_not_excluded
    [where E = example_env and v = "example_submission ''22:00:00'' example_counted"
       and t = 1577916000 and restart = None and now = 1577923200 and regen = 86400
       and res = example_counted and ed = "[(''id'', JInt 51), (''sub_counts'', JInt 1)]"
       and sc = "JInt 1" and sid = "JInt 51" and ex = "[JInt 51]" and n = 0 and oldest = None]
  by (simp add: example_subm_time example_payload py_in_list_def)

text \<open>
  Claim C3 as stated fails where the id is absent: a submission inside the window
  with \<^verbatim>\<open>sub_counts\<close> 1 and no \<^verbatim>\<open>id\<close>, which no exclusion list contains, adds no token.
\<close>

theorem counted_without_id_counterexample:
  "py_getitem (example_results [(''sub_counts'', JInt 1)]) ''extra_data''
     = Inr (JObj [(''sub_counts'', JInt 1)])
   \<and> py_get (JObj [(''sub_counts'', JInt 1)]) ''id'' = Inr JNull
   \<and> \<not> py_in_list JNull []
   \<and> loop_body example_env [] 1577923200 None 86400
        (example_submission ''22:00:00'' (example_results [(''sub_counts'', JInt 1)])) (0, None)
      = Inr (0, None)
   \<and> count_tokens example_env (example_rate_limit 24)
        (metadata (example_autograder (example_rate_limit 24)
           [example_submission ''22:00:00'' (example_results [(''sub_counts'', JInt 1)])]))
      = Inr ((0, None), 1577923200)"
  by (simp add: count_tokens_def loop_body_def count_submission_def example_subm_time
      example_metadata example_payload example_rate_limit_simps parse_restart_time_def
      py_in_list_def)

text \<open>
  Claim C2, as the code has it. For a previous submission inside the window, both
  revisions count one token and go on when the results are absent or \<^verbatim>\<open>None\<close>, when
  the results have no \<^verbatim>\<open>extra_data\<close>, and when \<^verbatim>\<open>extra_data\<close> is a dictionary without
  \<^verbatim>\<open>sub_counts\<close>. When \<^verbatim>\<open>extra_data\<close> is present and \<^verbatim>\<open>None\<close>, the earlier revision counts one
  token as well, and the current revision counts none and leaves the loop state as it
  is; neither raises.
\<close>

theorem malformed_payload_counts_one_token:
  "subm_time_of E v = Inr t \<longrightarrow> (\<forall>r. restart = Some r \<longrightarrow> r \<le> t) \<longrightarrow> now - t < regen \<longrightarrow>
     ((py_getitem v ''results'' = Inl KeyError
       \<or> py_getitem v ''results'' = Inr JNull
       \<or> (\<exists>res. py_getitem v ''results'' = Inr res \<and> py_getitem res ''extra_data'' = Inl KeyError)
       \<or> (\<exists>res ed. py_getitem v ''results'' = Inr res
             \<and> py_getitem res ''extra_data'' = Inr (JObj ed) \<and> map_of ed ''sub_counts'' = None))
      \<longrightarrow> loop_body E ex now restart regen v (n, oldest) = Inr (n + 1, oldest)
          \<and> legacy_loop_body E now restart regen v n = Inr (n + 1))
     \<and> ((\<exists>res. py_getitem v ''results'' = Inr res \<and> py_getitem res ''extra_data'' = Inr JNull)
      \<longrightarrow> loop_body E ex now restart regen v (n, oldest) = Inr (n, oldest)
          \<and> legacy_loop_body E now restart regen v n = Inr (n + 1))"
  by (auto simp: loop_body_in_window legacy_loop_body_in_window count_submission_def
      legacy_count_submission_def split: option.splits)

theorem malformed_payload_counts_one_token_witness:
  "subm_time_of example_env
       (JObj [(''submission_time'', JStr ''2020-01-01T22:00:00.000000-08:00'')])
     = Inr 1577916000
   \<and> (1577923200::int) - 1577916000 < 86400
   \<and> py_getitem (JObj [(''submission_time'', JStr ''2020-01-01T22:00:00.000000-08:00'')])
        ''results'' = Inl KeyError
   \<and> loop_body example_env [] 1577923200 None 86400
        (JObj [(''submission_time'', JStr ''2020-01-01T22:00:00.000000-08:00'')]) (0, None)
      = Inr (1, None)
   \<and> legacy_loop_body example_env 1577923200 None 86400
        (JObj [(''submission_time'', JStr ''2020-01-01T22:00:00.000000-08:00'')]) 0
      = Inr 1
   \<and> py_getitem (example_results []) ''extra_data'' = Inr (JObj [])
   \<and> loop_body example_env [] 1577923200 None 86400
        (example_submission ''22:00:00'' (example_results [])) (0, None)
      = Inr (1, None)
   \<and> py_getitem (JObj [(''score'', JInt 7), (''tests'', JArr []), (''extra_data'', JNull)])
        ''extra_data'' = Inr JNull
   \<and> legacy_loop_body example_env 1577923200 None 86400
        (example_submission ''22:00:00''
           (JObj [(''score'', JInt 7), (''tests'', JArr []), (''extra_data'', JNull)])) 0
      = Inr 1"
  using malformed_payload_counts_one_token
    [where E = example_env
       and v = "JObj [(''submission_time'', JStr ''2020-01-01T22:00:00.000000-08:00'')]"
       and t = 1577916000 and restart = None and now = 1577923200 and regen = 86400
       and ex = "[]" and n = 0 and oldest = None]
    malformed_payload_counts_one_token
    [where E = example_env and v = "example_submission ''22:00:00'' (example_results [])"
       and t = 1577916000 and restart = None and now = 1577923200 and regen = 86400
       and ex = "[]" and n = 0 and oldest = None]
    malformed_payload_counts_one_token
    [where E = example_env
       and v = "example_submission ''22:00:00''
                  (JObj [(''score'', JInt 7), (''tests'', JArr []), (''extra_data'', JNull)])"
       and t = 1577916000 and restart = None and now = 1577923200 and regen = 86400
       and ex = "[]" and n = 0 and oldest = None]
  by (simp add: example_subm_time example_payload example_bare_subm_time)

text \<open>
  Claim C2 as stated fails in the current revision where \<^verbatim>\<open>extra_data\<close> is present and
  \<^verbatim>\<open>None\<close>: the submission is inside the window and no token is counted for it.
\<close>

theorem null_extra_data_counterexample:
  "subm_time_of example_env
       (example_submission ''22:00:00''
          (JObj [(''score'', JInt 7), (''tests'', JArr []), (''extra_data'', JNull)]))
     = Inr 1577916000
   \<and> (1577923200::int) - 1577916000 < 86400
   \<and> loop_body example_env [] 1577923200 None 86400
        (example_submission ''22:00:00''
           (JObj [(''score'', JInt 7), (''tests'', JArr []), (''extra_data'', JNull)])) (0, None)
      = Inr (0, None)
   \<and> count_tokens example_env (example_rate_limit 24)
        (metadata (example_autograder (example_rate_limit 24)
           [example_submission ''22:00:00''
              (JObj [(''score'', JInt 7), (''tests'', JArr []), (''extra_data'', JNull)])]))
      = Inr ((0, None), 1577923200)"
  by (simp add: count_tokens_def loop_body_def count_submission_def example_subm_time
      example_metadata example_payload example_rate_limit_simps parse_restart_time_def)

subsection \<open>Construction of a \<^verbatim>\<open>RateLimit\<close>\<close>

text \<open>
  Claim C8, as the code has it. \<^verbatim>\<open>RateLimit.__init__\<close> accepts every configuration and
  stores it unchanged, also one with a capacity and a window of zero seconds. Under
  such a configuration no previous submission dated at or before the current one is
  inside the window: no token is counted, and with a capacity of at least 1 the
  submission is allowed.
\<close>

theorem zero_window_accepted:
  "(\<exists>rl. RateLimit_init tk s m h d rt ppr excl = Inr rl \<and> tokens rl = tk
          \<and> total_seconds rl = s + 60 * (m + 60 * (h + 24 * d)))
   \<and> (RateLimit_init (Some cap) s m h d rt ppr excl = Inr rl \<longrightarrow>
        s + 60 * (m + 60 * (h + 24 * d)) = 0 \<longrightarrow>
        current_time_of E (metadata ag) = Inr now \<longrightarrow>
        parse_restart_time E rt = Inr restart \<longrightarrow>
        history_of (metadata ag) = Inr vs \<longrightarrow>
        (\<forall>v \<in> set vs. \<exists>t. subm_time_of E v = Inr t \<and> t \<le> now) \<longrightarrow>
        rate_limit ag = Some rl \<longrightarrow> 1 \<le> cap \<longrightarrow>
          count_tokens E rl (metadata ag) = Inr ((0, None), now)
          \<and> rate_limit_main E ag
              = Inr (Returned (if is_local E \<and> \<not> use_ratelimit_when_local ag then ag
                               else grant E rl cap 0 None now ag)))"
proof (intro conjI impI)
  show "\<exists>rl. RateLimit_init tk s m h d rt ppr excl = Inr rl \<and> tokens rl = tk
          \<and> total_seconds rl = s + 60 * (m + 60 * (h + 24 * d))"
    by (simp add: RateLimit_init_def total_seconds_def)
next
  assume h: "RateLimit_init (Some cap) s m h d rt ppr excl = Inr rl"
    "s + 60 * (m + 60 * (h + 24 * d)) = 0"
    "current_time_of E (metadata ag) = Inr now" "parse_restart_time E rt = Inr restart"
    "history_of (metadata ag) = Inr vs"
    "\<forall>v \<in> set vs. \<exists>t. subm_time_of E v = Inr t \<and> t \<le> now"
    "rate_limit ag = Some rl" "1 \<le> cap"
  from h(1) have rl: "tokens rl = Some cap" "reset_time rl = rt"
    by (auto simp: RateLimit_init_def)
  from h(1,2) have z: "total_seconds rl = 0"
    by (auto simp: RateLimit_init_def total_seconds_def)
  show c: "count_tokens E rl (metadata ag) = Inr ((0, None), now)"
    by (rule count_tokens_all_skipped [OF h(3) _ h(5)])
       (use h(4,6) rl z in \<open>auto simp: loop_body_outside_window\<close>)
  show "rate_limit_main E ag
          = Inr (Returned (if is_local E \<and> \<not> use_ratelimit_when_local ag then ag
                           else grant E rl cap 0 None now ag))"
    using h(7,8) rl z c by (simp add: rate_limit_main_def timedelta_def)
qed

theorem zero_window_accepted_witness:
  "RateLimit_init (Some 1) 0 0 0 0 None True [] = Inr (example_rate_limit 0)
   \<and> (0::int) + 60 * (0 + 60 * (0 + 24 * 0)) = 0
   \<and> subm_time_of example_env (example_submission ''22:00:00'' example_counted)
        = Inr 1577916000
   \<and> (1577916000::int) \<le> 1577923200
   \<and> count_tokens example_env (example_rate_limit 0)
        (metadata (example_autograder (example_rate_limit 0)
           [example_submission ''22:00:00'' example_counted]))
      = Inr ((0, None), 1577923200)
   \<and> rate_limit_main example_env
        (example_autograder (example_rate_limit 0)
           [example_submission ''22:00:00'' example_counted])
      = Inr (Returned
          (grant example_env (example_rate_limit 0) 1 0 None 1577923200
             (example_autograder (example_rate_limit 0)
                [example_submission ''22:00:00'' example_counted])))"
  using zero_window_accepted
    [where cap = 1 and s = 0 and m = 0 and h = 0 and d = 0 and rt = None and ppr = True
       and excl = "[]" and rl = "example_rate_limit 0" and E = example_env
       and ag = "example_autograder (example_rate_limit 0)
                   [example_submission ''22:00:00'' example_counted]"
       and now = 1577923200 and restart = None
       and vs = "[example_submission ''22:00:00'' example_counted]"]
  by (simp add: RateLimit_init_def example_rate_limit_def [of 0] example_subm_time
      example_metadata example_env_simps example_autograder_simps parse_restart_time_def)

text \<open>
  Claim C8 as stated fails: the constructor returns the configuration with a capacity
  of 1 and a window of zero seconds; it raises nothing.
\<close>

theorem zero_window_counterexample:
  "RateLimit_init (Some 1) 0 0 0 0 None False []
     = Inr \<lparr> tokens = Some 1, seconds = 0, minutes = 0, hours = 0, days = 0,
             reset_time = None, rl_output = [], pull_prev_run = False,
             submission_id_exclude = [], oldest_token_time = None,
             current_submission_time = None, main_string = [], tokens_used = None \<rparr>
   \<and> total_seconds
        \<lparr> tokens = Some 1, seconds = 0, minutes = 0, hours = 0, days = 0,
          reset_time = None, rl_output = [], pull_prev_run = False,
          submission_id_exclude = [], oldest_token_time = None,
          current_submission_time = None, main_string = [], tokens_used = None \<rparr> = 0"
  by (simp add: RateLimit_init_def total_seconds_def)

subsection \<open>The decision\<close>

text \<open>
  Claim C1. In an evaluation, that is past the test for a local run and with a
  capacity \<open>tk\<close>, let \<open>n\<close> be the number of tokens that the loop counts; it is not
  negative, and \<open>str_int\<close> writes it in decimal digits. When \<open>n < tk\<close> the function
  returns, \<^verbatim>\<open>sub_counts\<close> is 1 and the count kept for the message is \<open>n + 1\<close>: every text
  that \<^verbatim>\<open>get_rate_limit_str\<close> then returns says "you have had \<open>n + 1\<close> graded
  submissions", and it returns one whenever the regeneration date is a date that
  \<^verbatim>\<open>datetime\<close> can hold. When \<open>n < tk\<close> does not hold the function never returns: if it
  ends without raising, it has left the process with \<^verbatim>\<open>sub_counts\<close> 0 in the autograder
  and in the dumped results (for the default \<^verbatim>\<open>modify_results\<close>), and the printed text
  says "You have already had \<open>n\<close> graded submissions"; without \<^verbatim>\<open>pull_prev_run\<close> it ends
  so whenever the regeneration date is a date that \<^verbatim>\<open>datetime\<close> can hold. The earlier
  revision decides the same way and prints the same two sentences.
\<close>

theorem allowed_iff_tokens_below_capacity:
  "(\<not> (is_local E \<and> \<not> use_ratelimit_when_local ag) \<longrightarrow> rate_limit ag = Some rl \<longrightarrow>
    tokens rl = Some tk \<longrightarrow> count_tokens E rl (metadata ag) = Inr ((n, oldest), now) \<longrightarrow>
    timedelta (total_seconds rl) = Inr rate \<longrightarrow>
      0 \<le> n \<and> digits_value (str_int n) = nat n \<and> digits_value (str_int (n + 1)) = nat (n + 1)
      \<and> (n < tk \<longrightarrow>
           (\<exists>ag' rl'.
              rate_limit_main E ag = Inr (Returned ag')
              \<and> map_of (extra_data ag') ''sub_counts'' = Some (JInt 1)
              \<and> rate_limit ag' = Some rl' \<and> tokens_used rl' = Some (n + 1)
              \<and> (\<forall>txt. get_rate_limit_str E rl' ag' = Inr txt \<longrightarrow>
                    is_substring
                      (''. In the last period, you have had '' @ str_int (n + 1)
                       @ '' graded submissions.'') txt)
              \<and> (\<forall>nt. datetime_add (case oldest of Some t \<Rightarrow> fromtimestamp E t
                                                   | None \<Rightarrow> fromtimestamp E now) rate = Inr nt \<longrightarrow>
                    (\<exists>txt. get_rate_limit_str E rl' ag' = Inr txt))))
      \<and> (\<not> n < tk \<longrightarrow>
           (\<forall>ag'. rate_limit_main E ag \<noteq> Inr (Returned ag'))
           \<and> (\<forall>out. rate_limit_main E ag = Inr out \<longrightarrow>
                (\<exists>ag' results.
                   out = Exited ag' results
                   \<and> map_of (extra_data ag') ''sub_counts'' = Some (JInt 0)
                   \<and> is_substring
                       (''. You have already had '' @ str_int n
                        @ '' graded submissions within the last '') (output_text ag')
                   \<and> (modify_results ag = (\<lambda>r. r) \<longrightarrow>
                        (\<exists>ed. map_of results ''extra_data'' = Some (JObj ed)
                              \<and> map_of ed ''sub_counts'' = Some (JInt 0)))))
           \<and> (\<not> pull_prev_run rl \<longrightarrow>
                (\<forall>nx. next_regen (map_option (fromtimestamp E) oldest) rate = Inr nx \<longrightarrow>
                   (\<exists>ag' results. rate_limit_main E ag = Inr (Exited ag' results))))))
   \<and> (rate_limit ag = Some rl \<longrightarrow> tokens rl = Some tk \<longrightarrow>
       legacy_count_tokens E rl (metadata ag) = Inr m \<longrightarrow>
         0 \<le> m
         \<and> (m < tk \<longrightarrow>
              (\<exists>ag'. legacy_rate_limit_main E ag = Inr (Returned ag')
                     \<and> map_of (extra_data ag') ''sub_counts'' = Some (JInt 1)
                     \<and> is_substring
                         (''. In the last period, you have had '' @ str_int (m + 1)
                          @ '' graded submissions.'') (output_text ag')))
         \<and> (\<not> m < tk \<longrightarrow>
              (\<forall>ag'. legacy_rate_limit_main E ag \<noteq> Inr (Returned ag'))
              \<and> (\<forall>out. legacy_rate_limit_main E ag = Inr out \<longrightarrow>
                   (\<exists>ag' results.
                      out = Exited ag' results
                      \<and> map_of (extra_data ag') ''sub_counts'' = Some (JInt 0)
                      \<and> is_substring
                          (''. You have already had '' @ str_int m
                           @ '' graded submissions within the last '') (output_text ag')
                      \<and> (\<exists>ed. map_of results ''extra_data'' = Some (JObj ed)
                                \<and> map_of ed ''sub_counts'' = Some (JInt 0))))))"
proof (intro conjI impI)
  assume h: "\<not> (is_local E \<and> \<not> use_ratelimit_when_local ag)" "rate_limit ag = Some rl"
    "tokens rl = Some tk" "count_tokens E rl (metadata ag) = Inr ((n, oldest), now)"
    "timedelta (total_seconds rl) = Inr rate"
  note ev = rate_limit_main_evaluated [OF h]
  show n0: "0 \<le> n" by (rule count_tokens_nonneg [OF h(4)])
  show "digits_value (str_int n) = nat n" using n0 by (rule digits_value_str_int)
  show "digits_value (str_int (n + 1)) = nat (n + 1)" using n0 by (intro digits_value_str_int) simp
  {
    assume "n < tk"
    with ev have r: "rate_limit_main E ag = Inr (Returned (grant E rl tk n oldest now ag))"
      by simp
    let ?rl' = "rl\<lparr> oldest_token_time := map_option (fromtimestamp E) oldest,
                     current_submission_time := Some (fromtimestamp E now),
                     main_string := main_string_of tk rl, tokens_used := Some (n + 1) \<rparr>"
    let ?d = "case oldest of Some t \<Rightarrow> fromtimestamp E t | None \<Rightarrow> fromtimestamp E now"
    note g = get_rate_limit_str_granted
      [OF h(5) refl, where E = E and oldest = oldest and now = now and tk = tk and n = n
         and ag = ag]
    have t1: "\<forall>txt. get_rate_limit_str E ?rl' (grant E rl tk n oldest now ag) = Inr txt \<longrightarrow>
                is_substring
                  (''. In the last period, you have had '' @ str_int (n + 1)
                   @ '' graded submissions.'') txt"
    proof (intro allI impI)
      fix msg assume "get_rate_limit_str E ?rl' (grant E rl tk n oldest now ag) = Inr msg"
      with g obtain nt where
        "msg = [] @ main_string_with tk (str_int (n + 1)) rl @ next_token_regen_str E (Some nt)"
        by (auto split: sum.splits)
      then show "is_substring
                  (''. In the last period, you have had '' @ str_int (n + 1)
                   @ '' graded submissions.'') msg"
        by (simp only: is_substring_embedded [OF main_string_with_reports])
    qed
    have t2: "\<forall>nt. datetime_add ?d rate = Inr nt \<longrightarrow>
                (\<exists>txt. get_rate_limit_str E ?rl' (grant E rl tk n oldest now ag) = Inr txt)"
      using g by simp
    show "\<exists>ag' rl'.
              rate_limit_main E ag = Inr (Returned ag')
              \<and> map_of (extra_data ag') ''sub_counts'' = Some (JInt 1)
              \<and> rate_limit ag' = Some rl' \<and> tokens_used rl' = Some (n + 1)
              \<and> (\<forall>txt. get_rate_limit_str E rl' ag' = Inr txt \<longrightarrow>
                    is_substring
                      (''. In the last period, you have had '' @ str_int (n + 1)
                       @ '' graded submissions.'') txt)
              \<and> (\<forall>nt. datetime_add ?d rate = Inr nt \<longrightarrow>
                    (\<exists>txt. get_rate_limit_str E rl' ag' = Inr txt))"
      using r t1 t2
      by (intro exI [of _ "grant E rl tk n oldest now ag"] exI [of _ ?rl'])
         (simp add: grant_fields)
  }
  {
    assume "\<not> n < tk"
    with ev have r: "rate_limit_main E ag = deny E rl tk n oldest rate ag" by simp
    show "\<forall>ag'. rate_limit_main E ag \<noteq> Inr (Returned ag')"
      unfolding r using deny_result [of E rl tk n oldest rate ag] by auto
    show "\<forall>out. rate_limit_main E ag = Inr out \<longrightarrow>
                (\<exists>ag' results.
                   out = Exited ag' results
                   \<and> map_of (extra_data ag') ''sub_counts'' = Some (JInt 0)
                   \<and> is_substring
                       (''. You have already had '' @ str_int n
                        @ '' graded submissions within the last '') (output_text ag')
                   \<and> (modify_results ag = (\<lambda>r. r) \<longrightarrow>
                        (\<exists>ed. map_of results ''extra_data'' = Some (JObj ed)
                              \<and> map_of ed ''sub_counts'' = Some (JInt 0))))"
    proof (intro allI impI)
      fix out assume "rate_limit_main E ag = Inr out"
      with r have "deny E rl tk n oldest rate ag = Inr out" by simp
      from deny_result [OF this] obtain ag' results post nx where
        d: "out = Exited ag' results"
          "extra_data ag' = AList.update ''sub_counts'' (JInt 0) (extra_data ag)"
          "output_text ag'
             = output_text ag @ denied_string_of tk n rl @ [CHR 0x0A]
               @ denied_regen_string E nx @ [CHR 0x0A] @ post"
          "modify_results ag = (\<lambda>r. r) \<longrightarrow>
             map_of results ''extra_data'' = Some (JObj (extra_data ag'))"
        by blast
      have "is_substring
              (''. You have already had '' @ str_int n @ '' graded submissions within the last '')
              (output_text ag')"
        unfolding d(3) by (rule is_substring_embedded [OF denied_string_of_reports])
      with d show "\<exists>ag' results.
                   out = Exited ag' results
                   \<and> map_of (extra_data ag') ''sub_counts'' = Some (JInt 0)
                   \<and> is_substring
                       (''. You have already had '' @ str_int n
                        @ '' graded submissions within the last '') (output_text ag')
                   \<and> (modify_results ag = (\<lambda>r. r) \<longrightarrow>
                        (\<exists>ed. map_of results ''extra_data'' = Some (JObj ed)
                              \<and> map_of ed ''sub_counts'' = Some (JInt 0)))"
        by auto
    qed
    show "\<forall>nx. next_regen (map_option (fromtimestamp E) oldest) rate = Inr nx \<longrightarrow>
                   (\<exists>ag' results. rate_limit_main E ag = Inr (Exited ag' results))"
      if "\<not> pull_prev_run rl"
      unfolding r using deny_without_replay [OF that] by blast
  }
next
  assume h: "rate_limit ag = Some rl" "tokens rl = Some tk"
    "legacy_count_tokens E rl (metadata ag) = Inr m"
  note ev = legacy_rate_limit_main_evaluated [OF h]
  show "0 \<le> m" by (rule legacy_count_tokens_nonneg [OF h(3)])
  {
    assume "m < tk"
    with ev have r: "legacy_rate_limit_main E ag
        = Inr (Returned
            (ag_print (legacy_granted_string tk (m + 1) rl)
               (ag\<lparr> extra_data := AList.update ''sub_counts'' (JInt 1) (extra_data ag) \<rparr>)))"
      by simp
    have "is_substring
            (''. In the last period, you have had '' @ str_int (m + 1) @ '' graded submissions.'')
            (output_text ag @ legacy_granted_string tk (m + 1) rl @ [CHR 0x0A])"
      by (rule is_substring_embedded [OF legacy_granted_string_reports])
    with r show "\<exists>ag'. legacy_rate_limit_main E ag = Inr (Returned ag')
                     \<and> map_of (extra_data ag') ''sub_counts'' = Some (JInt 1)
                     \<and> is_substring
                         (''. In the last period, you have had '' @ str_int (m + 1)
                          @ '' graded submissions.'') (output_text ag')"
      by simp
  }
  {
    assume "\<not> m < tk"
    with ev have r: "legacy_rate_limit_main E ag = legacy_deny rl tk m ag" by simp
    show "\<forall>ag'. legacy_rate_limit_main E ag \<noteq> Inr (Returned ag')"
      unfolding r using legacy_deny_result [of rl tk m ag] by auto
    show "\<forall>out. legacy_rate_limit_main E ag = Inr out \<longrightarrow>
                   (\<exists>ag' results.
                      out = Exited ag' results
                      \<and> map_of (extra_data ag') ''sub_counts'' = Some (JInt 0)
                      \<and> is_substring
                          (''. You have already had '' @ str_int m
                           @ '' graded submissions within the last '') (output_text ag')
                      \<and> (\<exists>ed. map_of results ''extra_data'' = Some (JObj ed)
                                \<and> map_of ed ''sub_counts'' = Some (JInt 0)))"
    proof (intro allI impI)
      fix out assume "legacy_rate_limit_main E ag = Inr out"
      with r have "legacy_deny rl tk m ag = Inr out" by simp
      from legacy_deny_result [OF this] obtain ag' results where
        d: "out = Exited ag' results"
          "extra_data ag' = AList.update ''sub_counts'' (JInt 0) (extra_data ag)"
          "output_text ag' = output_text ag @ legacy_denied_string tk m rl @ [CHR 0x0A]"
          "map_of results ''extra_data'' = Some (JObj (extra_data ag'))"
        by blast
      have "is_substring
              (''. You have already had '' @ str_int m @ '' graded submissions within the last '')
              (output_text ag')"
        unfolding d(3) by (rule is_substring_embedded [OF legacy_denied_string_reports])
      with d show "\<exists>ag' results.
                      out = Exited ag' results
                      \<and> map_of (extra_data ag') ''sub_counts'' = Some (JInt 0)
                      \<and> is_substring
                          (''. You have already had '' @ str_int m
                           @ '' graded submissions within the last '') (output_text ag')
                      \<and> (\<exists>ed. map_of results ''extra_data'' = Some (JObj ed)
                                \<and> map_of ed ''sub_counts'' = Some (JInt 0))"
        by auto
    qed
  }
qed

theorem allowed_iff_tokens_below_capacity_witness:
  "\<not> (is_local example_env
        \<and> \<not> use_ratelimit_when_local (example_autograder (example_rate_limit 24) []))
   \<and> count_tokens example_env (example_rate_limit 24)
        (metadata (example_autograder (example_rate_limit 24) []))
      = Inr ((0, None), 1577923200)
   \<and> timedelta (total_seconds (example_rate_limit 24)) = Inr 86400
   \<and> (0::int) < 1
   \<and> digits_value (str_int 0) = 0 \<and> digits_value (str_int (0 + 1)) = 1
   \<and> (\<exists>ag' rl'.
         rate_limit_main example_env (example_autograder (example_rate_limit 24) [])
           = Inr (Returned ag')
         \<and> map_of (extra_data ag') ''sub_counts'' = Some (JInt 1)
         \<and> rate_limit ag' = Some rl' \<and> tokens_used rl' = Some 1
         \<and> get_rate_limit_str example_env rl' ag' = Inr example_granted_text)
   \<and> is_substring (''. In the last period, you have had '' @ str_int 1 @ '' graded submissions.'')
        example_granted_text
   \<and> count_tokens example_env (example_rate_limit 24)
        (metadata (example_autograder (example_rate_limit 24)
           [example_submission ''22:00:00'' example_counted]))
      = Inr ((1, Some 1577916000), 1577923200)
   \<and> \<not> (1::int) < 1
   \<and> rate_limit_main example_env
        (example_autograder (example_rate_limit 24)
           [example_submission ''22:00:00'' example_counted])
      = Inr (Exited example_denied example_replay)
   \<and> map_of (extra_data example_denied) ''sub_counts'' = Some (JInt 0)
   \<and> output_text example_denied = example_denied_text
   \<and> is_substring
        (''. You have already had '' @ str_int 1 @ '' graded submissions within the last '')
        example_denied_text
   \<and> map_of example_replay ''extra_data''
      = Some (JObj [(''id'', JInt 52), (''sub_counts'', JInt 0)])
   \<and> \<not> pull_prev_run ((example_rate_limit 24)\<lparr> pull_prev_run := False \<rparr>)
   \<and> next_regen (map_option (fromtimestamp example_env) (Some 1577916000)) 86400
      = Inr (Some 1578002400)
   \<and> (\<exists>ag' results.
         rate_limit_main example_env
           (example_autograder ((example_rate_limit 24)\<lparr> pull_prev_run := False \<rparr>)
              [example_submission ''22:00:00'' example_counted])
         = Inr (Exited ag' results))
   \<and> legacy_count_tokens example_env (example_rate_limit 24)
        (metadata (example_autograder (example_rate_limit 24) []))
      = Inr 0
   \<and> (\<exists>ag'. legacy_rate_limit_main example_env (example_autograder (example_rate_limit 24) [])
               = Inr (Returned ag')
             \<and> map_of (extra_data ag') ''sub_counts'' = Some (JInt 1)
             \<and> is_substring
                 (''. In the last period, you have had '' @ str_int 1 @ '' graded submissions.'')
                 (output_text ag'))
   \<and> legacy_rate_limit_main example_env
        (example_autograder (example_rate_limit 24)
           [example_submission ''22:00:00'' example_counted])
      = Inr (Exited legacy_example_denied legacy_example_replay)
   \<and> map_of (extra_data legacy_example_denied) ''sub_counts'' = Some (JInt 0)
   \<and> output_text legacy_example_denied = legacy_example_denied_text
   \<and> is_substring
        (''. You have already had '' @ str_int 1 @ '' graded submissions within the last '')
        legacy_example_denied_text"
  using allowed_iff_tokens_below_capacity
    [where E = example_env and ag = "example_autograder (example_rate_limit 24) []"
       and rl = "example_rate_limit 24" and tk = 1 and n = 0 and oldest = None
       and now = 1577923200 and rate = 86400 and m = 0]
    allowed_iff_tokens_below_capacity
    [where E = example_env
       and ag = "example_autograder (example_rate_limit 24)
                   [example_submission ''22:00:00'' example_counted]"
       and rl = "example_rate_limit 24" and tk = 1 and n = 1 and oldest = "Some 1577916000"
       and now = 1577923200 and rate = 86400 and m = 1]
    allowed_iff_tokens_below_capacity
    [where E = example_env
       and ag = "example_autograder ((example_rate_limit 24)\<lparr> pull_prev_run := False \<rparr>)
                   [example_submission ''22:00:00'' example_counted]"
       and rl = "(example_rate_limit 24)\<lparr> pull_prev_run := False \<rparr>" and tk = 1 and n = 1
       and oldest = "Some 1577916000" and now = 1577923200 and rate = 86400,
     THEN conjunct1]
  by (simp add: example_env_simps example_autograder_simps example_rate_limit_simps
      example_counts example_no_replay_counts example_denial legacy_example_denial timedelta_def
      example_grant example_grant_text grant_fields next_regen_def datetime_add_def
      example_denied_def legacy_example_denied_def example_replay_def output_text_def
      total_seconds_def)

subsection \<open>Replaying the previous run\<close>

text \<open>
  Claim C4, evaluated where the code departs from it. The submission is denied with
  \<^verbatim>\<open>pull_prev_run\<close> enabled. When the results of the last previous submission are \<^verbatim>\<open>None\<close>,
  the test for a missing payload is false and \<^verbatim>\<open>res["tests"]\<close> raises TypeError; when the
  results have a test list and no \<^verbatim>\<open>leaderboard\<close> key, which is how \<^verbatim>\<open>generate_results\<close>
  writes the results of an autograder without a leaderboard, \<^verbatim>\<open>res["leaderboard"]\<close>
  raises KeyError. In both cases \<^verbatim>\<open>rate_limit_main\<close> raises instead of falling back or
  replaying.
\<close>

theorem replay_raises_on_unfinished_run:
  "rate_limit_main example_env
     (example_autograder (example_rate_limit 24) [example_submission ''22:00:00'' JNull])
   = Inl TypeError
   \<and> rate_limit_main example_env
       (example_autograder (example_rate_limit 24)
          [example_submission ''22:00:00''
             (JObj [(''score'', JInt 7),
                    (''tests'', JArr [JObj [(''name'', JStr ''t1''), (''score'', JInt 7)]]),
                    (''extra_data'', JObj [(''id'', JInt 51), (''sub_counts'', JInt 1)])])])
     = Inl KeyError"
proof -
  let ?a = "example_autograder (example_rate_limit 24) [example_submission ''22:00:00'' JNull]"
  let ?r = "JObj [(''score'', JInt 7),
                  (''tests'', JArr [JObj [(''name'', JStr ''t1''), (''score'', JInt 7)]]),
                  (''extra_data'', JObj [(''id'', JInt 51), (''sub_counts'', JInt 1)])]"
  let ?b = "example_autograder (example_rate_limit 24) [example_submission ''22:00:00'' ?r]"
  have ca: "count_tokens example_env (example_rate_limit 24) (metadata ?a)
              = Inr ((1, None), 1577923200)"
    by (simp add: count_tokens_def loop_body_def count_submission_def example_metadata
        example_subm_time example_payload example_rate_limit_simps parse_restart_time_def)
  have cb: "count_tokens example_env (example_rate_limit 24) (metadata ?b)
              = Inr ((1, Some 1577916000), 1577923200)"
    by (simp add: count_tokens_def loop_body_def count_submission_def example_metadata
        example_subm_time example_payload example_rate_limit_simps parse_restart_time_def
        py_in_list_def)
  have "rate_limit_main example_env ?a
          = deny example_env (example_rate_limit 24) 1 1 None 86400 ?a"
    by (simp add: rate_limit_main_def ca example_env_simps example_autograder_simps
        example_rate_limit_simps timedelta_def)
  also have "\<dots> = Inl TypeError"
    by (simp add: deny_def Let_def pull_prev_def prev_run_unusable_def
        example_rate_limit_simps example_env_simps example_autograder_def
        example_submission_def ag_print_def next_regen_def datetime_add_def)
  finally have a: "rate_limit_main example_env ?a = Inl TypeError" .
  have "rate_limit_main example_env ?b
          = deny example_env (example_rate_limit 24) 1 1 (Some 1577916000) 86400 ?b"
    by (simp add: rate_limit_main_def cb example_env_simps example_autograder_simps
        example_rate_limit_simps timedelta_def)
  also have "\<dots> = Inl KeyError"
    by (simp add: deny_def Let_def pull_prev_def prev_run_unusable_def
        example_rate_limit_simps example_env_simps example_autograder_def
        example_submission_def ag_print_def next_regen_def datetime_add_def)
  finally have b: "rate_limit_main example_env ?b = Inl KeyError" .
  from a b show ?thesis by (rule conjI)
qed

subsection \<open>Determinism\<close>

text \<open>
  Claim C9. The count and the decision depend on the configured fields of the
  \<^verbatim>\<open>RateLimit\<close> and on the metadata only. Two rate limits that agree on capacity,
  window, reset time and exclusion list give the same count of tokens and the same
  oldest counted submission; two autograders that carry such rate limits and the same
  metadata are both allowed or both denied, whatever their other fields hold (the
  output, the score, \<^verbatim>\<open>extra_data\<close>, the message fields that an earlier call has set).
  And a second call, on the autograder that a first call has returned, returns that
  same autograder again.
\<close>

theorem decision_is_stateless:
  "(tokens rl' = tokens rl \<longrightarrow> seconds rl' = seconds rl \<longrightarrow> minutes rl' = minutes rl \<longrightarrow>
    hours rl' = hours rl \<longrightarrow> days rl' = days rl \<longrightarrow> reset_time rl' = reset_time rl \<longrightarrow>
    submission_id_exclude rl' = submission_id_exclude rl \<longrightarrow>
      count_tokens E rl' md = count_tokens E rl md
      \<and> (rate_limit aga = Some rl \<longrightarrow> rate_limit agb = Some rl' \<longrightarrow>
          metadata aga = md \<longrightarrow> metadata agb = md \<longrightarrow>
          use_ratelimit_when_local agb = use_ratelimit_when_local aga \<longrightarrow>
            (\<exists>a. rate_limit_main E aga = Inr (Returned a))
            = (\<exists>a. rate_limit_main E agb = Inr (Returned a))))
   \<and> (rate_limit_main E ag = Inr (Returned ag') \<longrightarrow>
        rate_limit_main E ag' = Inr (Returned ag'))"
proof (intro conjI impI)
  assume h: "tokens rl' = tokens rl" "seconds rl' = seconds rl" "minutes rl' = minutes rl"
    "hours rl' = hours rl" "days rl' = days rl" "reset_time rl' = reset_time rl"
    "submission_id_exclude rl' = submission_id_exclude rl"
  then have ts: "total_seconds rl' = total_seconds rl"
    by (simp add: total_seconds_def)
  show c: "count_tokens E rl' md = count_tokens E rl md"
    using h ts by (intro count_tokens_config)
  assume k: "rate_limit aga = Some rl" "rate_limit agb = Some rl'"
    "metadata aga = md" "metadata agb = md"
    "use_ratelimit_when_local agb = use_ratelimit_when_local aga"
  show "(\<exists>a. rate_limit_main E aga = Inr (Returned a))
        = (\<exists>a. rate_limit_main E agb = Inr (Returned a))"
    using h(1) ts c k
    by (auto simp: rate_limit_main_def deny_not_returned split: option.splits sum.splits)
next
  assume r: "rate_limit_main E ag = Inr (Returned ag')"
  from rate_limit_main_returned [OF r] show "rate_limit_main E ag' = Inr (Returned ag')"
  proof (elim disjE exE conjE)
    assume "ag' = ag"
    with r show ?thesis by simp
  next
    fix rl tk n oldest now rate
    assume g: "\<not> (is_local E \<and> \<not> use_ratelimit_when_local ag)" "rate_limit ag = Some rl"
      "tokens rl = Some tk" "count_tokens E rl (metadata ag) = Inr ((n, oldest), now)"
      "timedelta (total_seconds rl) = Inr rate" "n < tk"
      "ag' = grant E rl tk n oldest now ag"
    let ?rl' = "rl\<lparr> oldest_token_time := map_option (fromtimestamp E) oldest,
                     current_submission_time := Some (fromtimestamp E now),
                     main_string := main_string_of tk rl, tokens_used := Some (n + 1) \<rparr>"
    have f: "rate_limit ag' = Some ?rl'" "metadata ag' = metadata ag"
      "use_ratelimit_when_local ag' = use_ratelimit_when_local ag"
      unfolding g(7) by (simp_all add: grant_fields)
    have ts: "total_seconds ?rl' = total_seconds rl" by (simp add: total_seconds_def)
    have c: "count_tokens E ?rl' (metadata ag') = Inr ((n, oldest), now)"
      unfolding f(2) using g(4) ts by (simp add: count_tokens_config [of ?rl' rl])
    have "rate_limit_main E ag' = Inr (Returned (grant E ?rl' tk n oldest now ag'))"
      using rate_limit_main_evaluated [of E ag' ?rl' tk n oldest now rate] g f c ts by simp
    also have "grant E ?rl' tk n oldest now ag' = ag'"
      unfolding g(7) by (rule grant_twice) (simp add: grant_fields)
    finally show ?thesis .
  qed
qed

theorem decision_is_stateless_witness:
  "tokens ((example_rate_limit 24)\<lparr> main_string := ''x'', tokens_used := Some 5 \<rparr>)
     = tokens (example_rate_limit 24)
   \<and> total_seconds ((example_rate_limit 24)\<lparr> main_string := ''x'', tokens_used := Some 5 \<rparr>)
     = total_seconds (example_rate_limit 24)
   \<and> metadata
        ((example_autograder
            ((example_rate_limit 24)\<lparr> main_string := ''x'', tokens_used := Some 5 \<rparr>) [])
           \<lparr> extra_data := [(''id'', JInt 52), (''sub_counts'', JInt 0)],
             ag_output := Some ''earlier text'' \<rparr>)
     = metadata (example_autograder (example_rate_limit 24) [])
   \<and> count_tokens example_env
        ((example_rate_limit 24)\<lparr> main_string := ''x'', tokens_used := Some 5 \<rparr>)
        (metadata (example_autograder (example_rate_limit 24) []))
     = count_tokens example_env (example_rate_limit 24)
         (metadata (example_autograder (example_rate_limit 24) []))
   \<and> (\<exists>a. rate_limit_main example_env (example_autograder (example_rate_limit 24) [])
             = Inr (Returned a))
     = (\<exists>a. rate_limit_main example_env
               ((example_autograder
                   ((example_rate_limit 24)\<lparr> main_string := ''x'', tokens_used := Some 5 \<rparr>) [])
                  \<lparr> extra_data := [(''id'', JInt 52), (''sub_counts'', JInt 0)],
                    ag_output := Some ''earlier text'' \<rparr>)
             = Inr (Returned a))
   \<and> rate_limit_main example_env (example_autograder (example_rate_limit 24) [])
     = Inr (Returned
         (grant example_env (example_rate_limit 24) 1 0 None 1577923200
            (example_autograder (example_rate_limit 24) [])))
   \<and> rate_limit_main example_env
        (grant example_env (example_rate_limit 24) 1 0 None 1577923200
           (example_autograder (example_rate_limit 24) []))
     = Inr (Returned
         (grant example_env (example_rate_limit 24) 1 0 None 1577923200
            (example_autograder (example_rate_limit 24) [])))"
proof -
  have m: "metadata
        ((example_autograder
            ((example_rate_limit 24)\<lparr> main_string := ''x'', tokens_used := Some 5 \<rparr>) [])
           \<lparr> extra_data := [(''id'', JInt 52), (''sub_counts'', JInt 0)],
             ag_output := Some ''earlier text'' \<rparr>)
     = metadata (example_autograder (example_rate_limit 24) [])"
    by (simp add: example_autograder_def)
  have g: "rate_limit_main example_env (example_autograder (example_rate_limit 24) [])
     = Inr (Returned
         (grant example_env (example_rate_limit 24) 1 0 None 1577923200
            (example_autograder (example_rate_limit 24) [])))"
    by (simp add: rate_limit_main_def example_counts example_env_simps
        example_autograder_simps example_rate_limit_simps timedelta_def)
  have t: "total_seconds ((example_rate_limit 24)\<lparr> main_string := ''x'', tokens_used := Some 5 \<rparr>)
     = total_seconds (example_rate_limit 24)"
    by (simp add: total_seconds_def)
  note w = decision_is_stateless
    [where E = example_env and rl = "example_rate_limit 24"
       and rl' = "(example_rate_limit 24)\<lparr> main_string := ''x'', tokens_used := Some 5 \<rparr>"
       and md = "metadata (example_autograder (example_rate_limit 24) [])"
       and aga = "example_autograder (example_rate_limit 24) []"
       and agb = "(example_autograder
                     ((example_rate_limit 24)\<lparr> main_string := ''x'', tokens_used := Some 5 \<rparr>) [])
                    \<lparr> extra_data := [(''id'', JInt 52), (''sub_counts'', JInt 0)],
                      ag_output := Some ''earlier text'' \<rparr>"
       and ag = "example_autograder (example_rate_limit 24) []"
       and ag' = "grant example_env (example_rate_limit 24) 1 0 None 1577923200
                    (example_autograder (example_rate_limit 24) [])"]
  show ?thesis
    using w m g t by (simp add: example_autograder_simps)
qed

subsection \<open>The oldest counted submission and the regeneration message\<close>




end
